theory Spec2Isabelle
  imports Main "HOL-Library.Sublist"
begin

section \<open>The upload page of ML-App: data model\<close>

text \<open>
  The component is \<^verbatim>\<open>src/frontend/src/routes/+page.svelte\<close>; the result view's
  \<^verbatim>\<open>load\<close> function follows it in the same source file.

  JavaScript strings are held as their UTF-8 bytes (\<^typ>\<open>string\<close>), so the Thai
  messages of the page are written byte by byte. Strings with unpaired surrogates have no
  UTF-8 form and are outside the model.
\<close>

text \<open>A browser \<^verbatim>\<open>File\<close>: the attributes the page reads (\<^verbatim>\<open>f.name\<close>,
  \<^verbatim>\<open>f.type\<close>, \<^verbatim>\<open>f.size\<close>).\<close>

record jsfile =
  name :: string
  type :: string
  size_bytes :: nat

text \<open>Everything the page does to the outside world, in the order it happens. Writes of
  the \<^verbatim>\<open>uploading\<close> flag are journalled too: the view renders the flag, so each
  write is a visible change of the submission state.\<close>

datatype effect =
    CreateObjectURL string
  | RevokeObjectURL string
  | Uploading bool
  | Fetch string string "(string \<times> jsfile) list"
  | ReadJson
  | Goto string
  | Click

text \<open>The component's variables (lines 5-11; \<^verbatim>\<open>file\<close> is \<open>file_var\<close> here, the
  page having no other \<open>file\<close>), the browser's counter of object URLs and
  the journal of effects.\<close>

record state =
  file_var :: "jsfile option"
  previewUrl :: "string option"
  error :: string
  uploading :: bool
  dragActive :: bool
  fileInput :: bool
  urlSeq :: nat
  journal :: "effect list"

definition initial :: "bool \<Rightarrow> state" where
  "initial bound = \<lparr> file_var = None, previewUrl = None, error = [], uploading = False,
     dragActive = False, fileInput = bound, urlSeq = 0, journal = [] \<rparr>"

definition MAX_SIZE_MB :: nat where
  "MAX_SIZE_MB = 10"

definition ACCEPT :: "string list" where
  "ACCEPT = [''image/jpeg'', ''image/png'', ''image/webp'']"

subsection \<open>Numbers to text\<close>

definition digit_char :: "nat \<Rightarrow> char" where
  "digit_char d = char_of (48 + d)"

text \<open>\<^verbatim>\<open>String(n)\<close> for a non-negative integer below 2^53: its decimal digits.\<close>

fun String_nat :: "nat \<Rightarrow> string" where
  "String_nat n = (if n < 10 then [digit_char n]
                   else String_nat (n div 10) @ [digit_char (n mod 10)])"

declare String_nat.simps [simp del]

subsection \<open>The messages\<close>

text \<open>Line 50: the text in front of the extensions reads "only ... are supported".\<close>

definition MSG_TYPE :: string where
  "MSG_TYPE = [CHR 0xE0, CHR 0xB8, CHR 0xA3, CHR 0xE0, CHR 0xB8, CHR 0xAD, CHR 0xE0,
     CHR 0xB8, CHR 0x87, CHR 0xE0, CHR 0xB8, CHR 0xA3, CHR 0xE0, CHR 0xB8, CHR 0xB1,
     CHR 0xE0, CHR 0xB8, CHR 0x9A, CHR 0xE0, CHR 0xB9, CHR 0x80, CHR 0xE0, CHR 0xB8,
     CHR 0x89, CHR 0xE0, CHR 0xB8, CHR 0x9E, CHR 0xE0, CHR 0xB8, CHR 0xB2, CHR 0xE0,
     CHR 0xB8, CHR 0xB0] @ '' .jpg .png .webp''"

text \<open>Line 52: "the file is larger than", then the limit and \<^verbatim>\<open>MB\<close>.\<close>

definition MSG_SIZE_PREFIX :: string where
  "MSG_SIZE_PREFIX = [CHR 0xE0, CHR 0xB9, CHR 0x84, CHR 0xE0, CHR 0xB8, CHR 0x9F, CHR 0xE0,
     CHR 0xB8, CHR 0xA5, CHR 0xE0, CHR 0xB9, CHR 0x8C, CHR 0xE0, CHR 0xB9, CHR 0x83,
     CHR 0xE0, CHR 0xB8, CHR 0xAB, CHR 0xE0, CHR 0xB8, CHR 0x8D, CHR 0xE0, CHR 0xB9,
     CHR 0x88, CHR 0xE0, CHR 0xB9, CHR 0x80, CHR 0xE0, CHR 0xB8, CHR 0x81, CHR 0xE0,
     CHR 0xB8, CHR 0xB4, CHR 0xE0, CHR 0xB8, CHR 0x99, CHR '' '']"

definition MSG_SIZE :: string where
  "MSG_SIZE = MSG_SIZE_PREFIX @ String_nat MAX_SIZE_MB @ ''MB''"

text \<open>Line 60: "please choose an image file".\<close>

definition MSG_NO_FILE :: string where
  "MSG_NO_FILE = [CHR 0xE0, CHR 0xB8, CHR 0x81, CHR 0xE0, CHR 0xB8, CHR 0xA3, CHR 0xE0,
     CHR 0xB8, CHR 0xB8, CHR 0xE0, CHR 0xB8, CHR 0x93, CHR 0xE0, CHR 0xB8, CHR 0xB2,
     CHR 0xE0, CHR 0xB9, CHR 0x80, CHR 0xE0, CHR 0xB8, CHR 0xA5, CHR 0xE0, CHR 0xB8,
     CHR 0xB7, CHR 0xE0, CHR 0xB8, CHR 0xAD, CHR 0xE0, CHR 0xB8, CHR 0x81, CHR 0xE0,
     CHR 0xB9, CHR 0x84, CHR 0xE0, CHR 0xB8, CHR 0x9F, CHR 0xE0, CHR 0xB8, CHR 0xA5,
     CHR 0xE0, CHR 0xB9, CHR 0x8C, CHR 0xE0, CHR 0xB8, CHR 0xA0, CHR 0xE0, CHR 0xB8,
     CHR 0xB2, CHR 0xE0, CHR 0xB8, CHR 0x9E]"

text \<open>Line 75: "the upload did not succeed".\<close>

definition MSG_UPLOAD_FAILED :: string where
  "MSG_UPLOAD_FAILED = [CHR 0xE0, CHR 0xB8, CHR 0xAD, CHR 0xE0, CHR 0xB8, CHR 0xB1, CHR 0xE0,
     CHR 0xB8, CHR 0x9B, CHR 0xE0, CHR 0xB9, CHR 0x82, CHR 0xE0, CHR 0xB8, CHR 0xAB,
     CHR 0xE0, CHR 0xB8, CHR 0xA5, CHR 0xE0, CHR 0xB8, CHR 0x94, CHR 0xE0, CHR 0xB9,
     CHR 0x84, CHR 0xE0, CHR 0xB8, CHR 0xA1, CHR 0xE0, CHR 0xB9, CHR 0x88, CHR 0xE0,
     CHR 0xB8, CHR 0xAA, CHR 0xE0, CHR 0xB8, CHR 0xB3, CHR 0xE0, CHR 0xB9, CHR 0x80,
     CHR 0xE0, CHR 0xB8, CHR 0xA3, CHR 0xE0, CHR 0xB9, CHR 0x87, CHR 0xE0, CHR 0xB8,
     CHR 0x88]"

section \<open>Object URLs\<close>

definition emit :: "effect \<Rightarrow> state \<Rightarrow> state" where
  "emit e s = s\<lparr> journal := journal s @ [e] \<rparr>"

text \<open>\<^verbatim>\<open>URL.createObjectURL\<close> hands out a new, non-empty \<^verbatim>\<open>blob:\<close> URL on every
  call; the model numbers them.\<close>

definition createObjectURL :: "jsfile \<Rightarrow> state \<Rightarrow> string \<times> state" where
  "createObjectURL f s =
     (let u = ''blob:'' @ String_nat (urlSeq s)
      in (u, emit (CreateObjectURL u) (s\<lparr> urlSeq := urlSeq s + 1 \<rparr>)))"

definition revokeObjectURL :: "string \<Rightarrow> state \<Rightarrow> state" where
  "revokeObjectURL u s = emit (RevokeObjectURL u) s"

text \<open>The browser's store of live object URLs after a run of effects: a created URL is
  live until it is revoked; revoking a URL that is not live does nothing.\<close>

fun url_step :: "string list \<Rightarrow> effect \<Rightarrow> string list" where
  "url_step live (CreateObjectURL u) = live @ [u]"
| "url_step live (RevokeObjectURL u) = removeAll u live"
| "url_step live _ = live"

definition live_urls :: "effect list \<Rightarrow> string list" where
  "live_urls j = foldl url_step [] j"

text \<open>\<^verbatim>\<open>if (previewUrl)\<close>: \<^verbatim>\<open>null\<close> (\<open>None\<close>) is falsy, and so is the empty
  string.\<close>

definition truthy :: "string \<Rightarrow> bool" where
  "truthy u = (u \<noteq> [])"

section \<open>The validator and preview manager\<close>

text \<open>Lines 20-25.\<close>

definition reset :: "state \<Rightarrow> state" where
  "reset s =
     (let s1 = s\<lparr> error := [] \<rparr>;
          s2 = s1\<lparr> file_var := None \<rparr>;
          s3 = (case previewUrl s2 of
                  Some u \<Rightarrow> if truthy u then revokeObjectURL u s2 else s2
                | None \<Rightarrow> s2)
      in s3\<lparr> previewUrl := None \<rparr>)"

text \<open>Lines 47-56.\<close>

definition validateAndSet :: "jsfile option \<Rightarrow> state \<Rightarrow> state" where
  "validateAndSet c s =
     (let s1 = s\<lparr> error := [] \<rparr> in
      case c of
        None \<Rightarrow> s1
      | Some f \<Rightarrow>
          if type f \<notin> set ACCEPT then s1\<lparr> error := MSG_TYPE \<rparr>
          else
            let maxBytes = MAX_SIZE_MB * 1024 * 1024 in
            if size_bytes f > maxBytes then s1\<lparr> error := MSG_SIZE \<rparr>
            else
              let s2 = s1\<lparr> file_var := Some f \<rparr>;
                  s3 = (case previewUrl s2 of
                          Some u \<Rightarrow> if truthy u then revokeObjectURL u s2 else s2
                        | None \<Rightarrow> s2);
                  (u, s4) = createObjectURL f s3
              in s4\<lparr> previewUrl := Some u \<rparr>)"

section \<open>Acquisition\<close>

text \<open>\<^verbatim>\<open>files?.[0] ?? null\<close>: the first file, if there is a list and it has one.\<close>

fun first_file :: "jsfile list option \<Rightarrow> jsfile option" where
  "first_file None = None"
| "first_file (Some []) = None"
| "first_file (Some (f # _)) = Some f"

text \<open>Lines 16-18.\<close>

definition openFileDialog :: "state \<Rightarrow> state" where
  "openFileDialog s = (if fileInput s then emit Click s else s)"

text \<open>Lines 27-30.\<close>

definition onPick :: "jsfile list option \<Rightarrow> state \<Rightarrow> state" where
  "onPick files s = validateAndSet (first_file files) s"

text \<open>Lines 32-38; \<^verbatim>\<open>preventDefault\<close> and \<^verbatim>\<open>stopPropagation\<close> act on the event
  only.\<close>

definition onDrop :: "jsfile list option \<Rightarrow> state \<Rightarrow> state" where
  "onDrop files s =
     (let s1 = s\<lparr> dragActive := False \<rparr>
      in validateAndSet (first_file files) s1)"

text \<open>Lines 40-45.\<close>

definition onDragOver :: "state \<Rightarrow> state" where
  "onDragOver s = s\<lparr> dragActive := True \<rparr>"

definition onDragLeave :: "state \<Rightarrow> state" where
  "onDragLeave s = s\<lparr> dragActive := False \<rparr>"

section \<open>The submission controller\<close>

subsection \<open>Values that come back from the service\<close>

text \<open>What \<^verbatim>\<open>res.json()\<close> resolves to. A number is kept as the text ECMAScript's
  \<^verbatim>\<open>Number::toString\<close> prints for it (\<^verbatim>\<open>0.87\<close> for the double nearest to 0.87);
  the binary floating-point value is not modelled. An object lists each of its keys
  once, as \<^verbatim>\<open>JSON.parse\<close> builds it.\<close>

datatype json =
    JNull
  | JBool bool
  | JNum string
  | JStr string
  | JArr "json list"
  | JObj "(string \<times> json) list"

text \<open>A thrown value, as far as the \<^verbatim>\<open>catch\<close> clause looks at it: its
  \<^verbatim>\<open>message\<close>, or \<open>None\<close> when the value or its message is null or undefined.\<close>

datatype thrown = Exception "string option"

text \<open>The two TypeErrors the engine itself can raise inside the \<^verbatim>\<open>try\<close> block; the
  wording of their messages is the engine's.\<close>

datatype engine_error = ReadOfNull string | NotPrimitive

datatype json_outcome = JsonRejected thrown | JsonResolved json

record response =
  status :: nat
  json_result :: json_outcome

datatype fetch_outcome = Rejected thrown | Resolved response

text \<open>What the surroundings of one \<^verbatim>\<open>submit()\<close> call supply: the configured base URL,
  how \<^verbatim>\<open>fetch\<close> and \<^verbatim>\<open>res.json()\<close> settle, whether \<^verbatim>\<open>goto\<close> throws, and the
  engine's TypeError messages.\<close>

record env =
  PUBLIC_API_BASE :: string
  fetch_result :: fetch_outcome
  goto_result :: "thrown option"
  typeErrorText :: "engine_error \<Rightarrow> string"

text \<open>\<^verbatim>\<open>res.ok\<close>: the status is in the range 200 to 299.\<close>

definition ok :: "response \<Rightarrow> bool" where
  "ok res = (200 \<le> status res \<and> status res \<le> 299)"

definition TypeError :: "env \<Rightarrow> engine_error \<Rightarrow> thrown" where
  "TypeError ev k = Exception (Some (typeErrorText ev k))"

text \<open>\<^verbatim>\<open>data.label\<close>, \<^verbatim>\<open>data.prob\<close>, \<^verbatim>\<open>data.request_id\<close>: reading a property of
  \<^verbatim>\<open>null\<close> throws; an object gives its own property or \<^verbatim>\<open>undefined\<close>
  (\<open>None\<close>); no other value, and no prototype, has a property of these three names.\<close>

fun read_field :: "env \<Rightarrow> json \<Rightarrow> string \<Rightarrow> thrown + json option" where
  "read_field ev JNull k = Inl (TypeError ev (ReadOfNull k))"
| "read_field ev (JObj kvs) k = Inr (map_of kvs k)"
| "read_field ev _ k = Inr None"

text \<open>\<^verbatim>\<open>x ?? d\<close>.\<close>

fun nullish :: "json option \<Rightarrow> json \<Rightarrow> json" where
  "nullish None d = d"
| "nullish (Some JNull) d = d"
| "nullish (Some v) d = v"

text \<open>\<^verbatim>\<open>String(v)\<close>, which is also the conversion \<^verbatim>\<open>URLSearchParams\<close> applies to the
  values of its initialiser. \<open>None\<close> stands for the TypeError "cannot convert object to
  primitive value": an object whose own \<^verbatim>\<open>toString\<close> property is data has no usable
  conversion. An array is joined with commas, \<^verbatim>\<open>null\<close> elements giving nothing.\<close>

fun ToString :: "json \<Rightarrow> string option"
  and join :: "json list \<Rightarrow> string option" where
  "ToString JNull = Some ''null''"
| "ToString (JBool b) = Some (if b then ''true'' else ''false'')"
| "ToString (JNum t) = Some t"
| "ToString (JStr t) = Some t"
| "ToString (JArr xs) = join xs"
| "ToString (JObj kvs) =
     (if ''toString'' \<in> fst ` set kvs then None else Some ''[object Object]'')"
| "join [] = Some []"
| "join (x # xs) =
     (case (if x = JNull then Some [] else ToString x) of
        None \<Rightarrow> None
      | Some a \<Rightarrow>
          if xs = [] then Some a
          else (case join xs of None \<Rightarrow> None | Some b \<Rightarrow> Some (a @ '','' @ b)))"

definition String_js :: "env \<Rightarrow> json \<Rightarrow> thrown + string" where
  "String_js ev v = (case ToString v of None \<Rightarrow> Inl (TypeError ev NotPrimitive) | Some t \<Rightarrow> Inr t)"

subsection \<open>URLSearchParams\<close>

definition hex_digit :: "nat \<Rightarrow> char" where
  "hex_digit d = (if d < 10 then char_of (48 + d) else char_of (55 + d))"

text \<open>The form-urlencoded serialiser: letters, digits and \<^verbatim>\<open>*-._\<close> stay, a space becomes
  \<^verbatim>\<open>+\<close>, every other byte becomes \<^verbatim>\<open>%XX\<close>.\<close>

definition urlencode_byte :: "char \<Rightarrow> string" where
  "urlencode_byte c =
     (let n = (of_char c :: nat) in
      if n = 32 then ''+''
      else if (48 \<le> n \<and> n \<le> 57) \<or> (65 \<le> n \<and> n \<le> 90) \<or> (97 \<le> n \<and> n \<le> 122)
              \<or> n = 42 \<or> n = 45 \<or> n = 46 \<or> n = 95 then [c]
      else [CHR ''%'', hex_digit (n div 16), hex_digit (n mod 16)])"

definition urlencode :: "string \<Rightarrow> string" where
  "urlencode t = concat (map urlencode_byte t)"

text \<open>\<^verbatim>\<open>q.toString()\<close>.\<close>

fun URLSearchParams_toString :: "(string \<times> string) list \<Rightarrow> string" where
  "URLSearchParams_toString [] = []"
| "URLSearchParams_toString [(k, v)] = urlencode k @ ''='' @ urlencode v"
| "URLSearchParams_toString ((k, v) # kvs) =
     urlencode k @ ''='' @ urlencode v @ ''&'' @ URLSearchParams_toString kvs"

text \<open>Lines 68-72: the three values in the order the object literal evaluates them, then
  their conversion by \<^verbatim>\<open>new URLSearchParams\<close>.\<close>

definition build_query :: "env \<Rightarrow> json \<Rightarrow> thrown + (string \<times> string) list" where
  "build_query ev data =
     (case read_field ev data ''label'' of Inl e \<Rightarrow> Inl e | Inr l \<Rightarrow>
     (case read_field ev data ''prob'' of Inl e \<Rightarrow> Inl e | Inr p \<Rightarrow>
     (case String_js ev (nullish p (JStr [])) of Inl e \<Rightarrow> Inl e | Inr prob \<Rightarrow>
     (case read_field ev data ''request_id'' of Inl e \<Rightarrow> Inl e | Inr r \<Rightarrow>
     (case String_js ev (nullish l (JStr [])) of Inl e \<Rightarrow> Inl e | Inr label \<Rightarrow>
     (case String_js ev (nullish r (JStr [])) of Inl e \<Rightarrow> Inl e | Inr rid \<Rightarrow>
        Inr [(''label'', label), (''prob'', prob), (''id'', rid)]))))))"

subsection \<open>The flag\<close>

definition set_uploading :: "bool \<Rightarrow> state \<Rightarrow> state" where
  "set_uploading b s = emit (Uploading b) (s\<lparr> uploading := b \<rparr>)"

subsection \<open>What the page does while a call is suspended\<close>

text \<open>
  \<^verbatim>\<open>submit\<close> is an \<^verbatim>\<open>async\<close> function: it runs up to \<^verbatim>\<open>await fetch(...)\<close>
  (line 65), is resumed when the request settles, runs up to \<^verbatim>\<open>await res.json()\<close>
  (line 67) and is resumed again when the body has been read. In between, the page goes
  on reacting to the user. While \<^verbatim>\<open>uploading\<close> is set the Predict button and the
  clear button beside it are disabled (lines 172, 175), so no second \<^verbatim>\<open>submit\<close>
  starts; the drop zone, the file input and the clear button inside the preview are not
  (lines 103-132, 154). These are the handlers that can run during an \<^verbatim>\<open>await\<close>.
\<close>

datatype gesture =
    OpenDialog
  | Clear
  | Pick "jsfile list option"
  | Drop "jsfile list option"
  | DragOver
  | DragLeave

fun react :: "state \<Rightarrow> gesture \<Rightarrow> state" where
  "react s OpenDialog = openFileDialog s"
| "react s Clear = reset s"
| "react s (Pick files) = onPick files s"
| "react s (Drop files) = onDrop files s"
| "react s DragOver = onDragOver s"
| "react s DragLeave = onDragLeave s"

definition meanwhile :: "gesture list \<Rightarrow> state \<Rightarrow> state" where
  "meanwhile gs s = foldl react s gs"

subsection \<open>submit\<close>

text \<open>Lines 63-73, the body of \<^verbatim>\<open>try\<close>: \<open>Inl e\<close> when \<open>e\<close> is thrown. \<open>d1\<close> is
  what the user does while the request is under way, \<open>d2\<close> what the user does while the
  body is read.\<close>

definition submit_try ::
  "env \<Rightarrow> jsfile \<Rightarrow> gesture list \<Rightarrow> gesture list \<Rightarrow> state \<Rightarrow> (thrown + unit) \<times> state" where
  "submit_try ev f d1 d2 s =
     (let form = [(''file'', f)];
          s1 = meanwhile d1 (emit (Fetch (PUBLIC_API_BASE ev @ ''/predict'') ''POST'' form) s)
      in (case fetch_result ev of
            Rejected e \<Rightarrow> (Inl e, s1)
          | Resolved res \<Rightarrow>
              if \<not> ok res
              then (Inl (Exception (Some (''HTTP '' @ String_nat (status res)))), s1)
              else
                (let s2 = meanwhile d2 (emit ReadJson s1)
                 in (case json_result res of
                       JsonRejected e \<Rightarrow> (Inl e, s2)
                     | JsonResolved data \<Rightarrow>
                         (case build_query ev data of
                            Inl e \<Rightarrow> (Inl e, s2)
                          | Inr q \<Rightarrow>
                              (let s3 = emit (Goto (''/result?'' @ URLSearchParams_toString q)) s2
                               in (case goto_result ev of
                                     Some e \<Rightarrow> (Inl e, s3)
                                   | None \<Rightarrow> (Inr (), s3))))))))"

text \<open>Line 75: \<^verbatim>\<open>e?.message ?? '...'\<close>.\<close>

fun catch_message :: "thrown \<Rightarrow> string" where
  "catch_message (Exception None) = MSG_UPLOAD_FAILED"
| "catch_message (Exception (Some m)) = m"

text \<open>Lines 58-79, with the two \<^verbatim>\<open>await\<close>s: the points where \<open>fetch_result\<close>
  and \<open>json_result\<close> come in, and where \<open>d1\<close> and \<open>d2\<close> happen.\<close>

definition submit_during :: "env \<Rightarrow> gesture list \<Rightarrow> gesture list \<Rightarrow> state \<Rightarrow> state" where
  "submit_during ev d1 d2 s =
     (let s1 = s\<lparr> error := [] \<rparr> in
      case file_var s1 of
        None \<Rightarrow> s1\<lparr> error := MSG_NO_FILE \<rparr>
      | Some f \<Rightarrow>
          let s2 = set_uploading True s1;
              (r, s3) = submit_try ev f d1 d2 s2;
              s4 = (case r of Inl e \<Rightarrow> s3\<lparr> error := catch_message e \<rparr> | Inr _ \<Rightarrow> s3)
          in set_uploading False s4)"

text \<open>A call during whose \<^verbatim>\<open>await\<close>s the user does nothing.\<close>

definition submit :: "env \<Rightarrow> state \<Rightarrow> state" where
  "submit ev s = submit_during ev [] [] s"

section \<open>The result view\<close>

subsection \<open>From the navigated address to \<^verbatim>\<open>url.searchParams\<close>\<close>

fun split_on :: "char \<Rightarrow> string \<Rightarrow> string list" where
  "split_on c [] = [[]]"
| "split_on c (x # xs) =
     (if x = c then [] # split_on c xs
      else (case split_on c xs of [] \<Rightarrow> [[x]] | y # ys \<Rightarrow> (x # y) # ys))"

definition hex_value :: "char \<Rightarrow> nat option" where
  "hex_value c =
     (let n = (of_char c :: nat) in
      if 48 \<le> n \<and> n \<le> 57 then Some (n - 48)
      else if 65 \<le> n \<and> n \<le> 70 then Some (n - 55)
      else if 97 \<le> n \<and> n \<le> 102 then Some (n - 87)
      else None)"

fun percent_decode :: "string \<Rightarrow> string" where
  "percent_decode (c # h # l # cs) =
     (case (c = CHR ''%'', hex_value h, hex_value l) of
        (True, Some a, Some b) \<Rightarrow> char_of (16 * a + b) # percent_decode cs
      | _ \<Rightarrow> c # percent_decode (h # l # cs))"
| "percent_decode cs = cs"

definition plus_to_space :: "string \<Rightarrow> string" where
  "plus_to_space t = map (\<lambda>c. if c = CHR ''+'' then CHR '' '' else c) t"

text \<open>The form-urlencoded parser: split at \<^verbatim>\<open>&\<close>, skip empty pieces, split each at
  its first \<^verbatim>\<open>=\<close>, turn \<^verbatim>\<open>+\<close> into a space and undo the percent escapes. The
  decoded bytes are taken as they are; the replacement of byte runs that are not UTF-8 is
  not modelled.\<close>

definition parse_urlencoded :: "string \<Rightarrow> (string \<times> string) list" where
  "parse_urlencoded t =
     map (\<lambda>piece. (percent_decode (plus_to_space (takeWhile (\<lambda>c. c \<noteq> CHR ''='') piece)),
                    percent_decode (plus_to_space (drop 1 (dropWhile (\<lambda>c. c \<noteq> CHR ''='') piece)))))
         (filter (\<lambda>piece. piece \<noteq> []) (split_on CHR ''&'' t))"

text \<open>The query of an address: what stands between the first \<^verbatim>\<open>?\<close> and the
  fragment. The bytes \<open>URLSearchParams_toString\<close> emits pass the URL parser as they
  are.\<close>

definition searchParams_of :: "string \<Rightarrow> (string \<times> string) list" where
  "searchParams_of href =
     parse_urlencoded (drop 1 (dropWhile (\<lambda>c. c \<noteq> CHR ''?'')
                                 (takeWhile (\<lambda>c. c \<noteq> CHR ''#'') href)))"

text \<open>\<^verbatim>\<open>searchParams.get(name)\<close>: the first value of that name, or \<^verbatim>\<open>null\<close>.\<close>

definition get_param :: "(string \<times> string) list \<Rightarrow> string \<Rightarrow> string option" where
  "get_param ps k = map_of ps k"

subsection \<open>parseFloat\<close>

text \<open>A JavaScript number as \<^verbatim>\<open>parseFloat\<close> returns it: \<^verbatim>\<open>NaN\<close>, or the number
  that a decimal literal denotes (the literal is kept, its rounding to a double is not
  modelled).\<close>

datatype js_number = NaN | NumberOf string

definition is_digit :: "char \<Rightarrow> bool" where
  "is_digit c = (48 \<le> (of_char c :: nat) \<and> (of_char c :: nat) \<le> 57)"

text \<open>The white space \<^verbatim>\<open>parseFloat\<close> skips: tab, line feed, vertical tab, form feed,
  carriage return, space, and in UTF-8 the code points U+00A0, U+1680, U+2000 to U+200A,
  U+2028, U+2029, U+202F, U+205F, U+3000 and U+FEFF.\<close>

definition white_space :: "string list" where
  "white_space =
     [[CHR 0x09], [CHR 0x0A], [CHR 0x0B], [CHR 0x0C], [CHR 0x0D], [CHR 0x20],
      [CHR 0xC2, CHR 0xA0], [CHR 0xE1, CHR 0x9A, CHR 0x80]]
     @ map (\<lambda>n. [CHR 0xE2, CHR 0x80, char_of (128 + n)]) [0 ..< (11::nat)]
     @ [[CHR 0xE2, CHR 0x80, CHR 0xA8], [CHR 0xE2, CHR 0x80, CHR 0xA9],
        [CHR 0xE2, CHR 0x80, CHR 0xAF], [CHR 0xE2, CHR 0x81, CHR 0x9F],
        [CHR 0xE3, CHR 0x80, CHR 0x80], [CHR 0xEF, CHR 0xBB, CHR 0xBF]]"

fun trim_start :: "nat \<Rightarrow> string \<Rightarrow> string" where
  "trim_start 0 t = t"
| "trim_start (Suc k) t =
     (case find (\<lambda>w. prefix w t) white_space of
        None \<Rightarrow> t
      | Some w \<Rightarrow> trim_start k (drop (length w) t))"

definition exponent_part :: "string \<Rightarrow> string" where
  "exponent_part t =
     (case t of
        [] \<Rightarrow> []
      | e # r \<Rightarrow>
          if e = CHR ''e'' \<or> e = CHR ''E'' then
            (let sg = (case r of [] \<Rightarrow> [] | c # _ \<Rightarrow> if c = CHR ''+'' \<or> c = CHR ''-'' then [c] else []);
                 ds = takeWhile is_digit (drop (length sg) r)
             in if ds = [] then [] else e # sg @ ds)
          else [])"

text \<open>The longest prefix that is a \<^verbatim>\<open>StrDecimalLiteral\<close>, if there is one.\<close>

definition decimal_prefix :: "string \<Rightarrow> string option" where
  "decimal_prefix t =
     (let sg = (case t of [] \<Rightarrow> [] | c # _ \<Rightarrow> if c = CHR ''+'' \<or> c = CHR ''-'' then [c] else []);
          r = drop (length sg) t
      in if prefix ''Infinity'' r then Some (sg @ ''Infinity'')
         else
           (let ip = takeWhile is_digit r;
                r1 = dropWhile is_digit r;
                fp = (case r1 of [] \<Rightarrow> []
                      | c # cs \<Rightarrow> if c = CHR ''.'' then c # takeWhile is_digit cs else [])
            in if ip = [] \<and> length fp \<le> 1 then None
               else Some (sg @ ip @ fp @ exponent_part (drop (length fp) r1))))"

text \<open>Each round of \<open>trim_start\<close> removes at least one byte, so \<open>length t\<close> rounds
  remove all leading white space.\<close>

definition parseFloat :: "string \<Rightarrow> js_number" where
  "parseFloat t =
     (case decimal_prefix (trim_start (length t) t) of
        None \<Rightarrow> NaN
      | Some lit \<Rightarrow> NumberOf lit)"

subsection \<open>load\<close>

record page_data =
  label :: string
  prob :: js_number

text \<open>The last lines of the source: \<^verbatim>\<open>url.searchParams.get('label') ?? ''\<close> and
  \<^verbatim>\<open>parseFloat(url.searchParams.get('prob') ?? '0')\<close>.\<close>

definition load :: "(string \<times> string) list \<Rightarrow> page_data" where
  "load searchParams =
     (let label = (case get_param searchParams ''label'' of None \<Rightarrow> [] | Some v \<Rightarrow> v);
          prob = parseFloat (case get_param searchParams ''prob'' of None \<Rightarrow> ''0'' | Some v \<Rightarrow> v)
      in \<lparr> label = label, prob = prob \<rparr>)"

section \<open>The page as a whole\<close>

datatype action =
    OpenFileDialog
  | Reset
  | OnPick "jsfile list option"
  | OnDrop "jsfile list option"
  | OnDragOver
  | OnDragLeave
  | Submit env
  | SubmitDuring env "gesture list" "gesture list"

fun perform :: "state \<Rightarrow> action \<Rightarrow> state" where
  "perform s OpenFileDialog = openFileDialog s"
| "perform s Reset = reset s"
| "perform s (OnPick files) = onPick files s"
| "perform s (OnDrop files) = onDrop files s"
| "perform s OnDragOver = onDragOver s"
| "perform s OnDragLeave = onDragLeave s"
| "perform s (Submit ev) = submit ev s"
| "perform s (SubmitDuring ev d1 d2) = submit_during ev d1 d2 s"

definition run :: "bool \<Rightarrow> action list \<Rightarrow> state" where
  "run bound acts = foldl perform (initial bound) acts"

section \<open>Observations and sample inputs\<close>

text \<open>At no moment of a journal were two object URLs live: after each of its prefixes the
  store holds at most one.\<close>

definition never_two :: "effect list \<Rightarrow> bool" where
  "never_two j = (\<forall>p \<in> set (prefixes j). length (live_urls p) \<le> 1)"

text \<open>The invariant of the page: never two live URLs, the live one is the one in
  \<^verbatim>\<open>previewUrl\<close>, and \<^verbatim>\<open>previewUrl\<close> is never the empty string (which
  \<^verbatim>\<open>if (previewUrl)\<close> would take for no handle).\<close>

definition single_live :: "state \<Rightarrow> bool" where
  "single_live s =
     (never_two (journal s)
      \<and> live_urls (journal s) = (case previewUrl s of None \<Rightarrow> [] | Some u \<Rightarrow> [u])
      \<and> previewUrl s \<noteq> Some [])"

text \<open>Effects that leave the store of object URLs alone.\<close>

fun url_neutral :: "effect \<Rightarrow> bool" where
  "url_neutral (CreateObjectURL u) = False"
| "url_neutral (RevokeObjectURL u) = False"
| "url_neutral _ = True"

text \<open>The values written to the \<^verbatim>\<open>uploading\<close> flag in a run of effects, in order.\<close>

fun uploading_writes :: "effect list \<Rightarrow> bool list" where
  "uploading_writes [] = []"
| "uploading_writes (Uploading b # es) = b # uploading_writes es"
| "uploading_writes (_ # es) = uploading_writes es"

text \<open>The field \<open>k\<close> of a response body, where the body is an object that has it.\<close>

fun own_field :: "json \<Rightarrow> string \<Rightarrow> json option" where
  "own_field (JObj kvs) k = map_of kvs k"
| "own_field _ k = None"

text \<open>The text of field \<open>k\<close> as a query parameter: empty for a field that is missing or
  \<^verbatim>\<open>null\<close>, else what \<^verbatim>\<open>String\<close> makes of the value (\<open>None\<close> if it throws).\<close>

definition param_text :: "json \<Rightarrow> string \<Rightarrow> string option" where
  "param_text data k =
     (case own_field data k of
        None \<Rightarrow> Some []
      | Some v \<Rightarrow> if v = JNull then Some [] else ToString v)"

text \<open>From \<open>s\<close> to \<open>t\<close> the journal has only grown, by effects that are not writes of
  the \<^verbatim>\<open>uploading\<close> flag, and the flag is the same.\<close>

definition flag_untouched :: "state \<Rightarrow> state \<Rightarrow> bool" where
  "flag_untouched s t =
     (\<exists>xs. journal t = journal s @ xs \<and> uploading_writes xs = [] \<and> uploading t = uploading s)"

text \<open>Two states agree on the candidate file, the preview handle and the number of the
  next object URL.\<close>

definition same_preview :: "state \<Rightarrow> state \<Rightarrow> bool" where
  "same_preview s t =
     (file_var s = file_var t \<and> previewUrl s = previewUrl t \<and> urlSeq s = urlSeq t)"

text \<open>What the user got to do during a call of \<^verbatim>\<open>submit\<close>: nothing if the call
  returned at once for want of a file, \<open>d1\<close> if it ended when the request settled, and
  \<open>d1\<close> then \<open>d2\<close> if it went on to read the body.\<close>

definition ran_during :: "env \<Rightarrow> state \<Rightarrow> gesture list \<Rightarrow> gesture list \<Rightarrow> gesture list" where
  "ran_during ev s d1 d2 =
     (case file_var s of
        None \<Rightarrow> []
      | Some f \<Rightarrow>
          (case fetch_result ev of
             Rejected e \<Rightarrow> d1
           | Resolved res \<Rightarrow> if ok res then d1 @ d2 else d1))"

text \<open>Four files: a PNG of 2 MiB, a GIF of 12 MiB, a JPEG of 12 MiB, a JPEG of 1 MiB.\<close>

definition sample_png :: jsfile where
  "sample_png = \<lparr> name = ''wall.png'', type = ''image/png'', size_bytes = 2 * 1024 * 1024 \<rparr>"

definition sample_gif :: jsfile where
  "sample_gif = \<lparr> name = ''wall.gif'', type = ''image/gif'', size_bytes = 12 * 1024 * 1024 \<rparr>"

definition sample_jpeg :: jsfile where
  "sample_jpeg = \<lparr> name = ''wall.jpg'', type = ''image/jpeg'', size_bytes = 12 * 1024 * 1024 \<rparr>"

definition second_jpeg :: jsfile where
  "second_jpeg = \<lparr> name = ''a.jpg'', type = ''image/jpeg'', size_bytes = 1024 * 1024 \<rparr>"

text \<open>The page after the PNG has been picked.\<close>

definition picked :: state where
  "picked = validateAndSet (Some sample_png) (initial True)"

text \<open>TypeError messages in the wording of V8.\<close>

definition engine_text :: "engine_error \<Rightarrow> string" where
  "engine_text e =
     (case e of
        ReadOfNull k \<Rightarrow>
          ''Cannot read properties of null (reading '' @ [CHR 0x27] @ k @ [CHR 0x27] @ '')''
      | NotPrimitive \<Rightarrow> ''Cannot convert object to primitive value'')"

text \<open>Surroundings in which \<^verbatim>\<open>fetch\<close> resolves with the given status and body and
  \<^verbatim>\<open>goto\<close> returns.\<close>

definition responding :: "nat \<Rightarrow> json_outcome \<Rightarrow> env" where
  "responding st body =
     \<lparr> PUBLIC_API_BASE = ''http://localhost:8000'',
       fetch_result = Resolved \<lparr> status = st, json_result = body \<rparr>,
       goto_result = None,
       typeErrorText = engine_text \<rparr>"

text \<open>Three bodies: the full one, \<^verbatim>\<open>{"request_id": null, "label": 7}\<close>, and one
  without \<^verbatim>\<open>prob\<close>.\<close>

definition crack_body :: json where
  "crack_body = JObj [(''label'', JStr ''crack''), (''prob'', JNum ''0.87''),
                      (''request_id'', JStr ''abc123'')]"

definition sparse_body :: json where
  "sparse_body = JObj [(''request_id'', JNull), (''label'', JNum ''7'')]"

definition no_prob_body :: json where
  "no_prob_body = JObj [(''label'', JStr ''crack''), (''request_id'', JStr ''abc123'')]"

section \<open>Lemmas\<close>

lemma emit_simps [simp]:
  "file_var (emit e s) = file_var s"
  "previewUrl (emit e s) = previewUrl s"
  "error (emit e s) = error s"
  "uploading (emit e s) = uploading s"
  "dragActive (emit e s) = dragActive s"
  "fileInput (emit e s) = fileInput s"
  "urlSeq (emit e s) = urlSeq s"
  "journal (emit e s) = journal s @ [e]"
  by (simp_all add: emit_def)

lemma live_urls_Nil [simp]: "live_urls [] = []"
  by (simp add: live_urls_def)

lemma live_urls_snoc [simp]: "live_urls (j @ [e]) = url_step (live_urls j) e"
  by (simp add: live_urls_def)

lemma never_two_Nil [simp]: "never_two []"
  by (simp add: never_two_def)

lemma never_two_snoc: "never_two (j @ [e]) = (never_two j \<and> length (live_urls (j @ [e])) \<le> 1)"
  by (auto simp: never_two_def)

lemma live_urls_snoc2: "live_urls (j @ [a, b]) = url_step (url_step (live_urls j) a) b"
  using live_urls_snoc [of "j @ [a]" b] by simp

lemma never_two_snoc2:
  "never_two (j @ [a, b]) =
     (never_two j \<and> length (live_urls (j @ [a])) \<le> 1 \<and> length (live_urls (j @ [a, b])) \<le> 1)"
  using never_two_snoc [of "j @ [a]" b] never_two_snoc [of j a] by simp

lemma url_neutral_step: "url_neutral e \<Longrightarrow> url_step l e = l"
  by (cases e) simp_all

lemma live_urls_neutral: "\<forall>e \<in> set xs. url_neutral e \<Longrightarrow> live_urls (j @ xs) = live_urls j"
proof (induction xs rule: rev_induct)
  case Nil
  show ?case by simp
next
  case (snoc x xs)
  then have "live_urls ((j @ xs) @ [x]) = live_urls j"
    by (simp only: live_urls_snoc) (simp add: url_neutral_step)
  then show ?case by simp
qed

lemma never_two_neutral:
  "\<forall>e \<in> set xs. url_neutral e \<Longrightarrow> never_two j \<Longrightarrow> never_two (j @ xs)"
proof (induction xs rule: rev_induct)
  case Nil
  then show ?case by simp
next
  case (snoc x xs)
  then have a: "never_two (j @ xs)" by simp
  have b: "live_urls ((j @ xs) @ [x]) = live_urls j"
    using live_urls_neutral [of "xs @ [x]" j] snoc.prems(1) by simp
  have c: "length (live_urls j) \<le> 1"
    using snoc.prems(2) by (simp add: never_two_def)
  have "never_two ((j @ xs) @ [x])"
    unfolding never_two_snoc using a b c by simp
  then show ?case by simp
qed

lemma single_live_initial: "single_live (initial b)"
  by (simp add: single_live_def initial_def)

lemma reset_effect:
  "reset s = s\<lparr> error := [], file_var := None, previewUrl := None,
      journal := journal s @ (case previewUrl s of None \<Rightarrow> []
                              | Some u \<Rightarrow> if truthy u then [RevokeObjectURL u] else []) \<rparr>"
  by (simp add: reset_def Let_def revokeObjectURL_def emit_def split: option.splits)

lemma single_live_reset: "single_live s \<Longrightarrow> single_live (reset s)"
  by (auto simp: reset_effect single_live_def never_two_snoc truthy_def split: option.splits)

lemma single_live_error [simp]: "single_live (s\<lparr> error := m \<rparr>) = single_live s"
  by (simp add: single_live_def)

lemma single_live_dragActive [simp]: "single_live (s\<lparr> dragActive := m \<rparr>) = single_live s"
  by (simp add: single_live_def)

lemma validate_accept:
  "type f \<in> set ACCEPT \<Longrightarrow> size_bytes f \<le> MAX_SIZE_MB * 1024 * 1024 \<Longrightarrow>
   validateAndSet (Some f) s =
     s\<lparr> error := [], file_var := Some f, previewUrl := Some (''blob:'' @ String_nat (urlSeq s)),
        urlSeq := urlSeq s + 1,
        journal := journal s
          @ (case previewUrl s of None \<Rightarrow> [] | Some u \<Rightarrow> if truthy u then [RevokeObjectURL u] else [])
          @ [CreateObjectURL (''blob:'' @ String_nat (urlSeq s))] \<rparr>"
  by (simp add: validateAndSet_def Let_def revokeObjectURL_def createObjectURL_def emit_def
      split: option.splits)

lemma validate_reject_type:
  "type f \<notin> set ACCEPT \<Longrightarrow> validateAndSet (Some f) s = s\<lparr> error := MSG_TYPE \<rparr>"
  by (simp add: validateAndSet_def)

lemma validate_reject_size:
  "type f \<in> set ACCEPT \<Longrightarrow> size_bytes f > MAX_SIZE_MB * 1024 * 1024 \<Longrightarrow>
     validateAndSet (Some f) s = s\<lparr> error := MSG_SIZE \<rparr>"
  by (simp add: validateAndSet_def)

lemma validate_absent: "validateAndSet None s = s\<lparr> error := [] \<rparr>"
  by (simp add: validateAndSet_def)

lemma single_live_accept:
  assumes "type f \<in> set ACCEPT" "size_bytes f \<le> MAX_SIZE_MB * 1024 * 1024" "single_live s"
  shows "single_live (validateAndSet (Some f) s)"
  using assms(3) unfolding validate_accept [OF assms(1,2)]
  by (auto simp: single_live_def never_two_snoc never_two_snoc2 live_urls_snoc2 truthy_def
      split: option.splits)

lemma single_live_validateAndSet: "single_live s \<Longrightarrow> single_live (validateAndSet c s)"
proof (cases c)
  case None
  assume "single_live s"
  then show ?thesis by (simp add: None validate_absent)
next
  case (Some f)
  assume s: "single_live s"
  show ?thesis
  proof (cases "type f \<in> set ACCEPT")
    case False
    then show ?thesis using s by (simp add: Some validate_reject_type)
  next
    case True
    show ?thesis
    proof (cases "size_bytes f > MAX_SIZE_MB * 1024 * 1024")
      case True
      then show ?thesis using s \<open>type f \<in> set ACCEPT\<close> by (simp add: Some validate_reject_size)
    next
      case False
      then show ?thesis using s \<open>type f \<in> set ACCEPT\<close> by (simp add: Some single_live_accept)
    qed
  qed
qed

lemma set_uploading_simps [simp]:
  "file_var (set_uploading b s) = file_var s"
  "previewUrl (set_uploading b s) = previewUrl s"
  "error (set_uploading b s) = error s"
  "uploading (set_uploading b s) = b"
  "dragActive (set_uploading b s) = dragActive s"
  "fileInput (set_uploading b s) = fileInput s"
  "urlSeq (set_uploading b s) = urlSeq s"
  "journal (set_uploading b s) = journal s @ [Uploading b]"
  by (simp_all add: set_uploading_def)

text \<open>What the body of \<open>try\<close> does to the state: it only adds to the journal, first the
  request, then at most a read of the body and a navigation.\<close>

lemma meanwhile_Nil [simp]: "meanwhile [] s = s"
  by (simp add: meanwhile_def)

lemma submit_try_state:
  "\<exists>mid. snd (submit_try ev f [] [] s) =
            s\<lparr> journal := journal s @ Fetch (PUBLIC_API_BASE ev @ ''/predict'') ''POST'' [(''file'', f)] # mid \<rparr>
         \<and> (\<forall>e \<in> set mid. e = ReadJson \<or> (\<exists>u. e = Goto u))"
  by (auto simp: submit_try_def Let_def emit_def
      split: fetch_outcome.splits json_outcome.splits sum.splits option.splits)

lemma submit_no_file: "file_var s = None \<Longrightarrow> submit ev s = s\<lparr> error := MSG_NO_FILE \<rparr>"
  by (simp add: submit_def submit_during_def)

lemma submit_with_file:
  assumes "file_var s = Some f"
  shows "\<exists>mid. submit ev s =
            s\<lparr> error := error (submit ev s), uploading := False,
               journal := journal s @ Uploading True
                  # Fetch (PUBLIC_API_BASE ev @ ''/predict'') ''POST'' [(''file'', f)] # mid
                  @ [Uploading False] \<rparr>
         \<and> (\<forall>e \<in> set mid. e = ReadJson \<or> (\<exists>u. e = Goto u))"
proof -
  let ?s2 = "set_uploading True (s\<lparr> error := [] \<rparr>)"
  obtain mid where m:
    "snd (submit_try ev f [] [] ?s2) =
       ?s2\<lparr> journal := journal ?s2 @ Fetch (PUBLIC_API_BASE ev @ ''/predict'') ''POST'' [(''file'', f)] # mid \<rparr>"
    "\<forall>e \<in> set mid. e = ReadJson \<or> (\<exists>u. e = Goto u)"
    using submit_try_state [of ev f ?s2] by blast
  obtain r s3 where rs: "submit_try ev f [] [] ?s2 = (r, s3)"
    by (cases "submit_try ev f [] [] ?s2")
  have s3: "s3 = ?s2\<lparr> journal := journal ?s2 @ Fetch (PUBLIC_API_BASE ev @ ''/predict'') ''POST'' [(''file'', f)] # mid \<rparr>"
    using m(1) rs by simp
  have "submit ev s =
          s\<lparr> error := error (submit ev s), uploading := False,
             journal := journal s @ Uploading True
                # Fetch (PUBLIC_API_BASE ev @ ''/predict'') ''POST'' [(''file'', f)] # mid
                @ [Uploading False] \<rparr>"
    using assms rs
    by (cases r) (simp_all add: submit_def submit_during_def Let_def s3 set_uploading_def emit_def)
  then show ?thesis using m(2) by blast
qed

lemma single_live_submit: "single_live s \<Longrightarrow> single_live (submit ev s)"
proof (cases "file_var s")
  case None
  assume "single_live s"
  then show ?thesis by (simp add: submit_no_file [OF None])
next
  case (Some f)
  assume s: "single_live s"
  obtain mid where m:
    "submit ev s =
       s\<lparr> error := error (submit ev s), uploading := False,
          journal := journal s @ Uploading True
             # Fetch (PUBLIC_API_BASE ev @ ''/predict'') ''POST'' [(''file'', f)] # mid
             @ [Uploading False] \<rparr>"
    "\<forall>e \<in> set mid. e = ReadJson \<or> (\<exists>u. e = Goto u)"
    using submit_with_file [OF Some, of ev] by blast
  let ?xs = "Uploading True # Fetch (PUBLIC_API_BASE ev @ ''/predict'') ''POST'' [(''file'', f)] # mid
             @ [Uploading False]"
  have n: "\<forall>e \<in> set ?xs. url_neutral e"
    using m(2) by auto
  have j: "journal (submit ev s) = journal s @ ?xs" and p: "previewUrl (submit ev s) = previewUrl s"
    by (subst m(1), simp)+
  show ?thesis
    using s never_two_neutral [OF n, of "journal s"] live_urls_neutral [OF n, of "journal s"]
    by (simp add: single_live_def j p)
qed

lemma single_live_openFileDialog: "single_live s \<Longrightarrow> single_live (openFileDialog s)"
  by (auto simp: openFileDialog_def single_live_def never_two_snoc split: option.splits)

lemma single_live_uploading [simp]: "single_live (s\<lparr> uploading := b \<rparr>) = single_live s"
  by (simp add: single_live_def)

lemma single_live_emit: "url_neutral e \<Longrightarrow> single_live s \<Longrightarrow> single_live (emit e s)"
  by (auto simp: single_live_def never_two_snoc url_neutral_step split: option.splits)

lemma single_live_set_uploading: "single_live s \<Longrightarrow> single_live (set_uploading b s)"
  by (simp add: set_uploading_def single_live_emit)

lemma single_live_react: "single_live s \<Longrightarrow> single_live (react s g)"
  by (cases g)
     (simp_all add: single_live_reset single_live_validateAndSet single_live_openFileDialog
        onPick_def onDrop_def onDragOver_def onDragLeave_def)

lemma single_live_meanwhile: "single_live s \<Longrightarrow> single_live (meanwhile gs s)"
  unfolding meanwhile_def by (induction gs arbitrary: s) (simp_all add: single_live_react)

lemma single_live_submit_try:
  "single_live s \<Longrightarrow> single_live (snd (submit_try ev f d1 d2 s))"
  by (simp add: submit_try_def Let_def single_live_emit single_live_meanwhile
      split: fetch_outcome.splits json_outcome.splits sum.splits option.splits)

lemma single_live_submit_during: "single_live s \<Longrightarrow> single_live (submit_during ev d1 d2 s)"
proof (cases "file_var s")
  case None
  assume "single_live s"
  then show ?thesis by (simp add: submit_during_def None)
next
  case (Some f)
  assume s: "single_live s"
  let ?s2 = "set_uploading True (s\<lparr> error := [] \<rparr>)"
  obtain r s3 where rs: "submit_try ev f d1 d2 ?s2 = (r, s3)"
    by (cases "submit_try ev f d1 d2 ?s2")
  have "single_live ?s2"
    using s by (simp add: single_live_set_uploading)
  then have "single_live s3"
    using single_live_submit_try [of ?s2 ev f d1 d2] rs by simp
  then show ?thesis
    using Some rs by (cases r) (simp_all add: submit_during_def Let_def single_live_set_uploading)
qed

lemma single_live_perform: "single_live s \<Longrightarrow> single_live (perform s a)"
  by (cases a)
     (simp_all add: single_live_reset single_live_validateAndSet single_live_submit
        single_live_submit_during
        single_live_openFileDialog onPick_def onDrop_def onDragOver_def onDragLeave_def)

text \<open>What \<^verbatim>\<open>submit\<close> itself does is invisible to the handlers as far as the file and
  the preview go: they come out of a run of gestures the same, whether or not a call is
  in flight.\<close>

lemma same_preview_refl [simp]: "same_preview s s"
  by (simp add: same_preview_def)

lemma same_preview_emit [simp]: "same_preview (emit e s) t = same_preview s t"
  by (simp add: same_preview_def)

lemma same_preview_set_uploading [simp]: "same_preview (set_uploading b s) t = same_preview s t"
  by (simp add: same_preview_def)

lemma same_preview_error [simp]: "same_preview (s\<lparr> error := m \<rparr>) t = same_preview s t"
  by (simp add: same_preview_def)

lemma same_preview_validateAndSet:
  "same_preview s t \<Longrightarrow> same_preview (validateAndSet c s) (validateAndSet c t)"
  by (auto simp: same_preview_def validateAndSet_def Let_def createObjectURL_def
      revokeObjectURL_def split: option.splits)

lemma same_preview_react: "same_preview s t \<Longrightarrow> same_preview (react s g) (react t g)"
proof (cases g)
  case Clear
  assume "same_preview s t"
  then show ?thesis by (simp add: Clear reset_effect same_preview_def)
next
  case (Pick files)
  assume "same_preview s t"
  then show ?thesis by (simp add: Pick onPick_def same_preview_validateAndSet)
next
  case (Drop files)
  assume "same_preview s t"
  then have "same_preview (s\<lparr> dragActive := False \<rparr>) (t\<lparr> dragActive := False \<rparr>)"
    by (simp add: same_preview_def)
  then show ?thesis by (simp add: Drop onDrop_def same_preview_validateAndSet)
qed (simp_all add: same_preview_def openFileDialog_def onDragOver_def onDragLeave_def)

lemma same_preview_meanwhile:
  "same_preview s t \<Longrightarrow> same_preview (meanwhile gs s) (meanwhile gs t)"
  unfolding meanwhile_def by (induction gs arbitrary: s t) (simp_all add: same_preview_react)

lemma meanwhile_append: "meanwhile (d1 @ d2) s = meanwhile d2 (meanwhile d1 s)"
  by (simp add: meanwhile_def)

lemma same_preview_submit_during:
  "same_preview (submit_during ev d1 d2 s) (meanwhile (ran_during ev s d1 d2) s)"
proof (cases "file_var s")
  case None
  then show ?thesis by (simp add: submit_during_def ran_during_def)
next
  case (Some f)
  let ?s2 = "emit (Fetch (PUBLIC_API_BASE ev @ ''/predict'') ''POST'' [(''file'', f)])
               (set_uploading True (s\<lparr> error := [] \<rparr>))"
  have a: "same_preview (meanwhile d1 ?s2) (meanwhile d1 s)"
    by (rule same_preview_meanwhile) simp
  have "same_preview (emit ReadJson (meanwhile d1 ?s2)) (meanwhile d1 s)"
    using a by simp
  then have b: "same_preview (meanwhile d2 (emit ReadJson (meanwhile d1 ?s2))) (meanwhile (d1 @ d2) s)"
    unfolding meanwhile_append by (rule same_preview_meanwhile)
  show ?thesis
    using a b Some
    by (simp add: submit_during_def submit_try_def ran_during_def Let_def
        split: fetch_outcome.splits json_outcome.splits sum.splits option.splits)
qed

lemma single_live_foldl: "single_live s \<Longrightarrow> single_live (foldl perform s acts)"
  by (induction acts arbitrary: s) (simp_all add: single_live_perform)

lemma single_live_run: "single_live (run b acts)"
  by (simp add: run_def single_live_foldl single_live_initial)

lemma MSG_TYPE_nonempty: "MSG_TYPE \<noteq> []"
  by (simp add: MSG_TYPE_def)

lemma MSG_TYPE_names:
  "sublist ''.jpg'' MSG_TYPE \<and> sublist ''.png'' MSG_TYPE \<and> sublist ''.webp'' MSG_TYPE"
proof -
  have "MSG_TYPE = (take 34 MSG_TYPE) @ ''.jpg'' @ '' .png .webp''"
    by (simp add: MSG_TYPE_def)
  then have a: "sublist ''.jpg'' MSG_TYPE" by (metis sublist_appendI)
  have "MSG_TYPE = (take 39 MSG_TYPE) @ ''.png'' @ '' .webp''"
    by (simp add: MSG_TYPE_def)
  then have b: "sublist ''.png'' MSG_TYPE" by (metis sublist_appendI)
  have "MSG_TYPE = (take 44 MSG_TYPE) @ ''.webp'' @ []"
    by (simp add: MSG_TYPE_def)
  then have c: "sublist ''.webp'' MSG_TYPE" by (metis sublist_appendI)
  show ?thesis using a b c by simp
qed

lemma String_nat_MAX: "String_nat MAX_SIZE_MB = ''10''"
  by code_simp

lemma MSG_SIZE_limit: "MSG_SIZE = MSG_SIZE_PREFIX @ ''10MB''"
  by (simp add: MSG_SIZE_def String_nat_MAX)

lemma MSG_SIZE_nonempty: "MSG_SIZE \<noteq> []"
  by (simp add: MSG_SIZE_def)

lemma MSG_NO_FILE_nonempty: "MSG_NO_FILE \<noteq> []"
  by (simp add: MSG_NO_FILE_def)

lemma sample_gif_facts:
  "type sample_gif \<notin> set ACCEPT" "size_bytes sample_gif > MAX_SIZE_MB * 1024 * 1024"
  by (simp_all add: sample_gif_def ACCEPT_def MAX_SIZE_MB_def)

lemma sample_png_facts:
  "type sample_png \<in> set ACCEPT" "size_bytes sample_png \<le> MAX_SIZE_MB * 1024 * 1024"
  by (simp_all add: sample_png_def ACCEPT_def MAX_SIZE_MB_def)

lemma sample_jpeg_facts:
  "type sample_jpeg \<in> set ACCEPT" "size_bytes sample_jpeg > MAX_SIZE_MB * 1024 * 1024"
  by (simp_all add: sample_jpeg_def ACCEPT_def MAX_SIZE_MB_def)

lemma String_nat_0: "String_nat 0 = ''0''"
  by code_simp

lemma picked_state:
  "picked = \<lparr> file_var = Some sample_png, previewUrl = Some ''blob:0'', error = [],
      uploading = False, dragActive = False, fileInput = True, urlSeq = 1,
      journal = [CreateObjectURL ''blob:0''] \<rparr>"
  by (simp add: picked_def validate_accept [OF sample_png_facts] initial_def String_nat_0)

lemma submit_try_not_ok:
  "fetch_result ev = Resolved res \<Longrightarrow> \<not> ok res \<Longrightarrow>
     submit_try ev f [] [] s =
       (Inl (Exception (Some (''HTTP '' @ String_nat (status res)))),
        emit (Fetch (PUBLIC_API_BASE ev @ ''/predict'') ''POST'' [(''file'', f)]) s)"
  by (simp add: submit_try_def)

lemma submit_try_query:
  "fetch_result ev = Resolved res \<Longrightarrow> ok res \<Longrightarrow> json_result res = JsonResolved data \<Longrightarrow>
   build_query ev data = Inr q \<Longrightarrow>
     submit_try ev f [] [] s =
       ((case goto_result ev of Some e \<Rightarrow> Inl e | None \<Rightarrow> Inr ()),
        emit (Goto (''/result?'' @ URLSearchParams_toString q))
          (emit ReadJson
            (emit (Fetch (PUBLIC_API_BASE ev @ ''/predict'') ''POST'' [(''file'', f)]) s)))"
  by (simp add: submit_try_def Let_def split: option.splits)

lemma submit_try_no_query:
  "fetch_result ev = Resolved res \<Longrightarrow> ok res \<Longrightarrow> json_result res = JsonResolved data \<Longrightarrow>
   build_query ev data = Inl e \<Longrightarrow>
     submit_try ev f [] [] s =
       (Inl e, emit ReadJson
                 (emit (Fetch (PUBLIC_API_BASE ev @ ''/predict'') ''POST'' [(''file'', f)]) s))"
  by (simp add: submit_try_def Let_def)

lemma submit_try_json_rejected:
  "fetch_result ev = Resolved res \<Longrightarrow> ok res \<Longrightarrow> json_result res = JsonRejected e \<Longrightarrow>
     submit_try ev f [] [] s =
       (Inl e, emit ReadJson
                 (emit (Fetch (PUBLIC_API_BASE ev @ ''/predict'') ''POST'' [(''file'', f)]) s))"
  by (simp add: submit_try_def Let_def)

lemma submit_not_ok:
  assumes "file_var s = Some f" "fetch_result ev = Resolved res" "\<not> ok res"
  shows "submit ev s =
           s\<lparr> error := ''HTTP '' @ String_nat (status res), uploading := False,
              journal := journal s @ [Uploading True,
                 Fetch (PUBLIC_API_BASE ev @ ''/predict'') ''POST'' [(''file'', f)],
                 Uploading False] \<rparr>"
  using assms(1)
  by (simp add: submit_def submit_during_def Let_def submit_try_not_ok [OF assms(2,3)] set_uploading_def emit_def)

lemma submit_query:
  assumes "file_var s = Some f" "fetch_result ev = Resolved res" "ok res"
    "json_result res = JsonResolved data" "build_query ev data = Inr q"
  shows "submit ev s =
           s\<lparr> error := (case goto_result ev of Some e \<Rightarrow> catch_message e | None \<Rightarrow> []),
              uploading := False,
              journal := journal s @ [Uploading True,
                 Fetch (PUBLIC_API_BASE ev @ ''/predict'') ''POST'' [(''file'', f)],
                 ReadJson, Goto (''/result?'' @ URLSearchParams_toString q),
                 Uploading False] \<rparr>"
  using assms(1)
  by (simp add: submit_def submit_during_def Let_def submit_try_query [OF assms(2-5)] set_uploading_def emit_def
      split: option.splits)

lemma submit_no_query:
  assumes "file_var s = Some f" "fetch_result ev = Resolved res" "ok res"
    "json_result res = JsonResolved data" "build_query ev data = Inl e"
  shows "submit ev s =
           s\<lparr> error := catch_message e, uploading := False,
              journal := journal s @ [Uploading True,
                 Fetch (PUBLIC_API_BASE ev @ ''/predict'') ''POST'' [(''file'', f)],
                 ReadJson, Uploading False] \<rparr>"
  using assms(1)
  by (simp add: submit_def submit_during_def Let_def submit_try_no_query [OF assms(2-5)] set_uploading_def emit_def)

lemma submit_json_rejected:
  assumes "file_var s = Some f" "fetch_result ev = Resolved res" "ok res"
    "json_result res = JsonRejected e"
  shows "submit ev s =
           s\<lparr> error := catch_message e, uploading := False,
              journal := journal s @ [Uploading True,
                 Fetch (PUBLIC_API_BASE ev @ ''/predict'') ''POST'' [(''file'', f)],
                 ReadJson, Uploading False] \<rparr>"
  using assms(1)
  by (simp add: submit_def submit_during_def Let_def submit_try_json_rejected [OF assms(2-4)] set_uploading_def emit_def)

lemma build_query_null: "build_query ev JNull = Inl (TypeError ev (ReadOfNull ''label''))"
  by (simp add: build_query_def)

lemma read_field_own: "data \<noteq> JNull \<Longrightarrow> read_field ev data k = Inr (own_field data k)"
  by (cases data) simp_all

lemma String_js_param:
  "param_text data k = Some t \<Longrightarrow> String_js ev (nullish (own_field data k) (JStr [])) = Inr t"
  by (cases "own_field data k"; cases "the (own_field data k)")
     (auto simp: param_text_def String_js_def split: if_splits)

lemma build_query_params:
  assumes "data \<noteq> JNull" "param_text data ''label'' = Some l" "param_text data ''prob'' = Some p"
    "param_text data ''request_id'' = Some r"
  shows "build_query ev data = Inr [(''label'', l), (''prob'', p), (''id'', r)]"
  by (simp add: build_query_def read_field_own [OF assms(1)] String_js_param [OF assms(2)]
      String_js_param [OF assms(3)] String_js_param [OF assms(4)])

lemma crack_query: "build_query ev crack_body
    = Inr [(''label'', ''crack''), (''prob'', ''0.87''), (''id'', ''abc123'')]"
  by (simp add: build_query_def crack_body_def String_js_def)

lemma crack_query_text:
  "URLSearchParams_toString [(''label'', ''crack''), (''prob'', ''0.87''), (''id'', ''abc123'')]
     = ''label=crack&prob=0.87&id=abc123''"
  by code_simp

lemma responding_simps [simp]:
  "PUBLIC_API_BASE (responding st b) = ''http://localhost:8000''"
  "fetch_result (responding st b) = Resolved \<lparr> status = st, json_result = b \<rparr>"
  "goto_result (responding st b) = None"
  "typeErrorText (responding st b) = engine_text"
  by (simp_all add: responding_def)

lemma picked_file: "file_var picked = Some sample_png"
  by (simp add: picked_state)

lemma ok_200: "ok \<lparr> status = 200, json_result = b \<rparr>"
  by (simp add: ok_def)

lemma not_ok_500: "\<not> ok \<lparr> status = 500, json_result = b \<rparr>"
  by (simp add: ok_def)

lemma uploading_writes_none:
  "\<forall>e \<in> set xs. e = ReadJson \<or> (\<exists>u. e = Goto u) \<Longrightarrow> uploading_writes xs = []"
  by (induction xs) auto

lemma single_live_picked: "single_live picked"
  unfolding picked_def by (rule single_live_validateAndSet [OF single_live_initial])

lemma String_nat_1: "String_nat 1 = ''1''"
  by code_simp

lemma String_nat_500: "String_nat 500 = ''500''"
  by code_simp


lemma param_text_default:
  "own_field data k = None \<or> own_field data k = Some JNull \<Longrightarrow> param_text data k = Some []"
  by (auto simp: param_text_def)


lemma sparse_query_text:
  "URLSearchParams_toString [(''label'', ''7''), (''prob'', []), (''id'', [])] = ''label=7&prob=&id=''"
  by code_simp


lemma no_prob_query_text:
  "URLSearchParams_toString [(''label'', ''crack''), (''prob'', []), (''id'', ''abc123'')]
     = ''label=crack&prob=&id=abc123''"
  by code_simp

lemma no_prob_query:
  "build_query ev no_prob_body = Inr [(''label'', ''crack''), (''prob'', []), (''id'', ''abc123'')]"
  by (simp add: build_query_def no_prob_body_def String_js_def)


lemma MSG_UPLOAD_FAILED_nonempty: "MSG_UPLOAD_FAILED \<noteq> []"
  by (simp add: MSG_UPLOAD_FAILED_def)

lemma catch_message_empty: "(catch_message e = []) = (e = Exception (Some []))"
proof (cases e)
  case (Exception m)
  then show ?thesis by (cases m) (simp_all add: MSG_UPLOAD_FAILED_nonempty)
qed

lemma second_jpeg_facts:
  "type second_jpeg \<in> set ACCEPT" "size_bytes second_jpeg \<le> MAX_SIZE_MB * 1024 * 1024"
  by (simp_all add: second_jpeg_def ACCEPT_def MAX_SIZE_MB_def)

lemma drop_on_picked:
  "same_preview (meanwhile [Drop (Some [second_jpeg])] picked)
     (picked\<lparr> file_var := Some second_jpeg, previewUrl := Some ''blob:1'', urlSeq := 2 \<rparr>)"
  using String_nat_1
  by (simp add: meanwhile_def onDrop_def validate_accept [OF second_jpeg_facts]
      same_preview_def picked_state)

text \<open>With the user active during the \<^verbatim>\<open>await\<close>s: the flag is still written
  exactly twice by a call, a call without a file still only sets the message, and a
  status that is not a success still ends in the \<^verbatim>\<open>HTTP\<close> message.\<close>

lemma uploading_writes_append:
  "uploading_writes (xs @ ys) = uploading_writes xs @ uploading_writes ys"
  by (induction xs rule: uploading_writes.induct) simp_all

lemma flag_untouched_refl [simp]: "flag_untouched s s"
  by (simp add: flag_untouched_def)

lemma flag_untouched_trans:
  "flag_untouched s t \<Longrightarrow> flag_untouched t u \<Longrightarrow> flag_untouched s u"
  by (auto simp: flag_untouched_def uploading_writes_append)

lemma flag_untouched_emit:
  "uploading_writes [e] = [] \<Longrightarrow> flag_untouched s t \<Longrightarrow> flag_untouched s (emit e t)"
  by (auto simp: flag_untouched_def uploading_writes_append)

lemma flag_untouched_error [simp]: "flag_untouched s (t\<lparr> error := m \<rparr>) = flag_untouched s t"
  by (simp add: flag_untouched_def)

lemma flag_untouched_validateAndSet: "flag_untouched s (validateAndSet c s)"
  by (auto simp: flag_untouched_def validateAndSet_def Let_def createObjectURL_def
      revokeObjectURL_def emit_def split: option.splits)

lemma flag_untouched_react: "flag_untouched s (react s g)"
proof (cases g)
  case (Drop files)
  have "flag_untouched (s\<lparr> dragActive := False \<rparr>) (validateAndSet (first_file files) (s\<lparr> dragActive := False \<rparr>))"
    by (rule flag_untouched_validateAndSet)
  then show ?thesis by (simp add: Drop onDrop_def flag_untouched_def)
qed (auto simp: flag_untouched_def openFileDialog_def reset_effect onPick_def
       onDragOver_def onDragLeave_def validateAndSet_def Let_def createObjectURL_def
       revokeObjectURL_def emit_def split: option.splits)

lemma flag_untouched_meanwhile: "flag_untouched s (meanwhile gs s)"
proof (induction gs rule: rev_induct)
  case Nil
  show ?case by simp
next
  case (snoc g gs)
  have "flag_untouched (meanwhile gs s) (react (meanwhile gs s) g)"
    by (rule flag_untouched_react)
  then show ?case
    using snoc flag_untouched_trans [of s "meanwhile gs s" "react (meanwhile gs s) g"]
    by (simp add: meanwhile_def)
qed

lemma flag_untouched_submit_try: "flag_untouched s (snd (submit_try ev f d1 d2 s))"
proof -
  let ?s1 = "meanwhile d1 (emit (Fetch (PUBLIC_API_BASE ev @ ''/predict'') ''POST'' [(''file'', f)]) s)"
  let ?s2 = "meanwhile d2 (emit ReadJson ?s1)"
  have a: "flag_untouched s ?s1"
    using flag_untouched_trans [OF flag_untouched_emit [OF _ flag_untouched_refl] flag_untouched_meanwhile]
    by simp
  have b: "flag_untouched s ?s2"
    using flag_untouched_trans [OF flag_untouched_emit [OF _ a] flag_untouched_meanwhile]
    by simp
  have c: "flag_untouched s (emit (Goto u) ?s2)" for u
    using flag_untouched_emit [OF _ b] by simp
  show ?thesis
    using a b c
    by (simp add: submit_try_def Let_def
        split: fetch_outcome.splits json_outcome.splits sum.splits option.splits)
qed

lemma submit_during_uploading_cycle:
  assumes "file_var s \<noteq> None"
  shows "(\<exists>mid. journal (submit_during ev d1 d2 s) = journal s @ [Uploading True] @ mid @ [Uploading False]
            \<and> uploading_writes mid = [])
     \<and> uploading (submit_during ev d1 d2 s) = False"
proof -
  obtain f where f: "file_var s = Some f" using assms by blast
  let ?s2 = "set_uploading True (s\<lparr> error := [] \<rparr>)"
  obtain r s3 where rs: "submit_try ev f d1 d2 ?s2 = (r, s3)"
    by (cases "submit_try ev f d1 d2 ?s2")
  have "flag_untouched ?s2 s3"
    using flag_untouched_submit_try [of ?s2 ev f d1 d2] rs by simp
  then obtain mid where m: "journal s3 = (journal s @ [Uploading True]) @ mid"
    "uploading_writes mid = []"
    by (auto simp: flag_untouched_def)
  have "journal (submit_during ev d1 d2 s) = journal s3 @ [Uploading False]"
    and u: "uploading (submit_during ev d1 d2 s) = False"
    using f rs by (cases r; simp add: submit_during_def Let_def)+
  then have "journal (submit_during ev d1 d2 s) = journal s @ [Uploading True] @ mid @ [Uploading False]"
    using m(1) by simp
  then show ?thesis using m(2) u by blast
qed

lemma submit_during_no_file:
  "file_var s = None \<Longrightarrow> submit_during ev d1 d2 s = s\<lparr> error := MSG_NO_FILE \<rparr>"
  by (simp add: submit_during_def)

lemma submit_during_http_error:
  assumes "file_var s = Some f" "fetch_result ev = Resolved res" "\<not> ok res"
  shows "error (submit_during ev d1 d2 s) = ''HTTP '' @ String_nat (status res)"
  using assms by (simp add: submit_during_def submit_try_def Let_def)

section \<open>Claims\<close>

subsection \<open>C1: a candidate of a type that is not accepted\<close>

text \<open>
  C1 as stated says that the candidate file is left unset. The validator returns before it
  touches the file, so a file accepted earlier stays: after a PNG has been accepted,
  offering a GIF leaves the PNG in place.
\<close>

theorem reject_type_keeps_file_counterexample:
  "type sample_gif \<notin> set ACCEPT
   \<and> file_var (validateAndSet (Some sample_gif) (validateAndSet (Some sample_png) (initial True)))
       = Some sample_png"
  using picked_state
  by (simp add: validate_reject_type [OF sample_gif_facts(1)] sample_gif_facts(1) picked_def)

text \<open>
  C1, amended: for every candidate whose type is not one of \<^verbatim>\<open>image/jpeg\<close>,
  \<^verbatim>\<open>image/png\<close>, \<^verbatim>\<open>image/webp\<close>, and in every state, \<open>validateAndSet\<close> changes
  nothing but the error message. The message is not empty and names \<^verbatim>\<open>.jpg\<close>,
  \<^verbatim>\<open>.png\<close> and \<^verbatim>\<open>.webp\<close>; the candidate file and the preview handle are what
  they were before the call (so unset if they were unset), and no object URL is created or
  revoked.
\<close>

theorem reject_type:
  "type f \<notin> set ACCEPT \<Longrightarrow>
     validateAndSet (Some f) s = s\<lparr> error := MSG_TYPE \<rparr>
     \<and> error (validateAndSet (Some f) s) \<noteq> []
     \<and> sublist ''.jpg'' (error (validateAndSet (Some f) s))
     \<and> sublist ''.png'' (error (validateAndSet (Some f) s))
     \<and> sublist ''.webp'' (error (validateAndSet (Some f) s))
     \<and> file_var (validateAndSet (Some f) s) = file_var s
     \<and> previewUrl (validateAndSet (Some f) s) = previewUrl s
     \<and> journal (validateAndSet (Some f) s) = journal s"
  by (simp add: validate_reject_type MSG_TYPE_nonempty MSG_TYPE_names)

theorem reject_type_witness:
  "type sample_gif \<notin> set ACCEPT
   \<and> validateAndSet (Some sample_gif) picked = picked\<lparr> error := MSG_TYPE \<rparr>
   \<and> file_var (validateAndSet (Some sample_gif) picked) = Some sample_png
   \<and> previewUrl (validateAndSet (Some sample_gif) picked) = Some ''blob:0''
   \<and> file_var (validateAndSet (Some sample_gif) (initial True)) = None"
  using reject_type [OF sample_gif_facts(1), of picked]
        reject_type [OF sample_gif_facts(1), of "initial True"]
  by (simp add: sample_gif_facts(1) picked_state initial_def)

subsection \<open>C2: a candidate above the size limit\<close>

text \<open>
  C2 as stated says that the message states the limit in MB whatever the type of the
  candidate. The type is checked first: a GIF of 12 MiB gets the message about the type,
  in which no \<^verbatim>\<open>10MB\<close> occurs.
\<close>

theorem reject_size_message_counterexample:
  "size_bytes sample_gif > MAX_SIZE_MB * 1024 * 1024
   \<and> error (validateAndSet (Some sample_gif) (initial True)) = MSG_TYPE
   \<and> \<not> sublist (String_nat MAX_SIZE_MB @ ''MB'') MSG_TYPE"
proof (intro conjI)
  show "size_bytes sample_gif > MAX_SIZE_MB * 1024 * 1024"
    by (rule sample_gif_facts(2))
  show "error (validateAndSet (Some sample_gif) (initial True)) = MSG_TYPE"
    by (simp add: validate_reject_type [OF sample_gif_facts(1)])
  show "\<not> sublist (String_nat MAX_SIZE_MB @ ''MB'') MSG_TYPE"
    by (simp add: String_nat_MAX MSG_TYPE_def sublist_code)
qed

text \<open>
  C2, amended: for every candidate of more than 10 * 1024 * 1024 bytes, whatever its type
  and in every state, \<open>validateAndSet\<close> changes nothing but the error message, which is
  not empty; the candidate file, the preview handle and the journal are untouched. When
  the type is an accepted one the message states the limit, \<^verbatim>\<open>10MB\<close>; otherwise it
  is the message about the type.
\<close>

theorem reject_size:
  "size_bytes f > MAX_SIZE_MB * 1024 * 1024 \<Longrightarrow>
     validateAndSet (Some f) s
       = s\<lparr> error := (if type f \<in> set ACCEPT then MSG_SIZE else MSG_TYPE) \<rparr>
     \<and> error (validateAndSet (Some f) s) \<noteq> []
     \<and> (type f \<in> set ACCEPT \<longrightarrow>
          sublist (String_nat MAX_SIZE_MB @ ''MB'') (error (validateAndSet (Some f) s)))
     \<and> file_var (validateAndSet (Some f) s) = file_var s
     \<and> previewUrl (validateAndSet (Some f) s) = previewUrl s
     \<and> journal (validateAndSet (Some f) s) = journal s"
proof (cases "type f \<in> set ACCEPT")
  case True
  assume big: "size_bytes f > MAX_SIZE_MB * 1024 * 1024"
  have "sublist (String_nat MAX_SIZE_MB @ ''MB'') MSG_SIZE"
    unfolding MSG_SIZE_def by (metis sublist_appendI append_Nil2)
  then show ?thesis
    by (simp add: validate_reject_size [OF True big] True MSG_SIZE_nonempty)
next
  case False
  then show ?thesis
    by (simp add: validate_reject_type MSG_TYPE_nonempty)
qed

theorem reject_size_witness:
  "size_bytes sample_jpeg > MAX_SIZE_MB * 1024 * 1024
   \<and> validateAndSet (Some sample_jpeg) picked = picked\<lparr> error := MSG_SIZE \<rparr>
   \<and> sublist (String_nat MAX_SIZE_MB @ ''MB'') (error (validateAndSet (Some sample_jpeg) picked))
   \<and> file_var (validateAndSet (Some sample_jpeg) picked) = file_var picked
   \<and> previewUrl (validateAndSet (Some sample_jpeg) picked) = previewUrl picked"
proof -
  have big: "size_bytes sample_jpeg > MAX_SIZE_MB * 1024 * 1024"
    by (rule sample_jpeg_facts(2))
  have img: "type sample_jpeg \<in> set ACCEPT"
    by (rule sample_jpeg_facts(1))
  show ?thesis
    using big img reject_size [OF big, of picked] by auto
qed

subsection \<open>C3: one live preview handle\<close>

text \<open>
  C3: at most one preview handle is live at any time. Whatever is done on the page from
  its initial state (any list of dialog openings, resets, picks, drops, drags and
  submissions, also submissions during whose \<^verbatim>\<open>await\<close>s the user goes on picking,
  dropping and clearing), after each single effect of the run at most one object URL is live, and
  the live one is the page's \<^verbatim>\<open>previewUrl\<close>; every operation keeps it so. When a
  candidate is accepted, the handle in use (if any) is revoked first and the new one is
  created next, so that exactly the new handle is live after the call. \<open>reset\<close> revokes
  the handle in use and clears \<^verbatim>\<open>previewUrl\<close>, leaving no live handle.
\<close>

theorem preview_handle_single_live:
  "(\<forall>p \<in> set (prefixes (journal (run bound acts))). length (live_urls p) \<le> 1)
   \<and> single_live (run bound acts)
   \<and> (single_live s \<longrightarrow> single_live (perform s a))
   \<and> (single_live s \<and> type f \<in> set ACCEPT \<and> size_bytes f \<le> MAX_SIZE_MB * 1024 * 1024 \<longrightarrow>
        journal (validateAndSet (Some f) s)
          = journal s @ (case previewUrl s of None \<Rightarrow> [] | Some u \<Rightarrow> [RevokeObjectURL u])
              @ [CreateObjectURL (''blob:'' @ String_nat (urlSeq s))]
        \<and> previewUrl (validateAndSet (Some f) s) = Some (''blob:'' @ String_nat (urlSeq s))
        \<and> live_urls (journal (validateAndSet (Some f) s)) = [''blob:'' @ String_nat (urlSeq s)])
   \<and> (single_live s \<longrightarrow>
        journal (reset s)
          = journal s @ (case previewUrl s of None \<Rightarrow> [] | Some u \<Rightarrow> [RevokeObjectURL u])
        \<and> previewUrl (reset s) = None
        \<and> live_urls (journal (reset s)) = [])"
proof (intro conjI impI)
  show "\<forall>p \<in> set (prefixes (journal (run bound acts))). length (live_urls p) \<le> 1"
    using single_live_run [of bound acts] by (simp add: single_live_def never_two_def)
  show "single_live (run bound acts)"
    by (rule single_live_run)
  show "single_live (perform s a)" if "single_live s"
    using that by (rule single_live_perform)
next
  assume a: "single_live s \<and> type f \<in> set ACCEPT \<and> size_bytes f \<le> MAX_SIZE_MB * 1024 * 1024"
  then have s: "single_live s" and t: "type f \<in> set ACCEPT"
    and z: "size_bytes f \<le> MAX_SIZE_MB * 1024 * 1024" by simp_all
  have n: "single_live (validateAndSet (Some f) s)"
    using single_live_accept [OF t z s] .
  show "journal (validateAndSet (Some f) s)
          = journal s @ (case previewUrl s of None \<Rightarrow> [] | Some u \<Rightarrow> [RevokeObjectURL u])
              @ [CreateObjectURL (''blob:'' @ String_nat (urlSeq s))]"
    using s by (auto simp: validate_accept [OF t z] single_live_def truthy_def split: option.splits)
  show p: "previewUrl (validateAndSet (Some f) s) = Some (''blob:'' @ String_nat (urlSeq s))"
    by (simp add: validate_accept [OF t z])
  show "live_urls (journal (validateAndSet (Some f) s)) = [''blob:'' @ String_nat (urlSeq s)]"
    using n p by (simp add: single_live_def)
next
  assume s: "single_live s"
  show "journal (reset s)
          = journal s @ (case previewUrl s of None \<Rightarrow> [] | Some u \<Rightarrow> [RevokeObjectURL u])"
    using s by (auto simp: reset_effect single_live_def truthy_def split: option.splits)
  show p: "previewUrl (reset s) = None"
    by (simp add: reset_effect)
  show "live_urls (journal (reset s)) = []"
    using single_live_reset [OF s] p by (simp add: single_live_def)
qed

theorem preview_handle_single_live_witness:
  "single_live picked
   \<and> type sample_png \<in> set ACCEPT \<and> size_bytes sample_png \<le> MAX_SIZE_MB * 1024 * 1024
   \<and> single_live (perform picked (OnDrop (Some [sample_png])))
   \<and> journal (validateAndSet (Some sample_png) picked)
       = [CreateObjectURL ''blob:0'', RevokeObjectURL ''blob:0'', CreateObjectURL ''blob:1'']
   \<and> live_urls (journal (validateAndSet (Some sample_png) picked)) = [''blob:1'']
   \<and> journal (reset picked) = [CreateObjectURL ''blob:0'', RevokeObjectURL ''blob:0'']
   \<and> live_urls (journal (reset picked)) = []"
proof -
  note t = preview_handle_single_live [of True "[]" picked "OnDrop (Some [sample_png])" sample_png]
  have h: "single_live picked" by (rule single_live_picked)
  have u: "urlSeq picked = 1" "previewUrl picked = Some ''blob:0''"
    "journal picked = [CreateObjectURL ''blob:0'']"
    by (simp_all add: picked_state)
  have n: "String_nat (Suc 0) = ''1''"
    using String_nat_1 by simp
  from t h sample_png_facts show ?thesis
    by (auto simp: u n)
qed


subsection \<open>C4: the submission state during a submission\<close>

text \<open>
  C4: for every call of \<open>submit\<close> with a candidate file set, and however \<^verbatim>\<open>fetch\<close>,
  \<^verbatim>\<open>res.json()\<close> and \<^verbatim>\<open>goto\<close> turn out (success, a status that is not a
  success, or an error thrown by any of them or by the engine), the call writes the
  \<^verbatim>\<open>uploading\<close> flag exactly twice: \<open>True\<close> as its first effect and \<open>False\<close> as its
  last, with no write in between; the flag is \<open>False\<close> when the call ends. A call is
  taken to its end here: both awaited promises settle.
\<close>

theorem submit_uploading_cycle:
  "file_var s \<noteq> None \<Longrightarrow>
     (\<exists>mid. journal (submit ev s) = journal s @ [Uploading True] @ mid @ [Uploading False]
            \<and> uploading_writes mid = [])
     \<and> uploading (submit ev s) = False"
proof -
  assume "file_var s \<noteq> None"
  then obtain f where f: "file_var s = Some f" by blast
  obtain mid where m:
    "submit ev s =
       s\<lparr> error := error (submit ev s), uploading := False,
          journal := journal s @ Uploading True
             # Fetch (PUBLIC_API_BASE ev @ ''/predict'') ''POST'' [(''file'', f)] # mid
             @ [Uploading False] \<rparr>"
    "\<forall>e \<in> set mid. e = ReadJson \<or> (\<exists>u. e = Goto u)"
    using submit_with_file [OF f, of ev] by blast
  let ?mid = "Fetch (PUBLIC_API_BASE ev @ ''/predict'') ''POST'' [(''file'', f)] # mid"
  have j: "journal (submit ev s) = journal s @ [Uploading True] @ ?mid @ [Uploading False]"
    by (subst m(1)) simp
  have w: "uploading_writes ?mid = []"
    using uploading_writes_none [OF m(2)] by simp
  have u: "uploading (submit ev s) = False"
    by (subst m(1)) simp
  show ?thesis using j w u by blast
qed

theorem submit_uploading_cycle_witness:
  "file_var picked \<noteq> None
   \<and> (\<exists>mid. journal (submit (responding 500 (JsonResolved JNull)) picked)
               = journal picked @ [Uploading True] @ mid @ [Uploading False]
            \<and> uploading_writes mid = [])
   \<and> uploading (submit (responding 500 (JsonResolved JNull)) picked) = False"
proof -
  have h: "file_var picked \<noteq> None" by (simp add: picked_file)
  show ?thesis
    using h submit_uploading_cycle [OF h, of "responding 500 (JsonResolved JNull)"] by blast
qed


subsection \<open>C5: submitting with no file\<close>

text \<open>
  C5: for every call of \<open>submit\<close> with no candidate file set, the call sets the message
  "please choose an image file" and does nothing else: the journal is unchanged, so there
  is no request and no write of the \<^verbatim>\<open>uploading\<close> flag, which keeps its value.
\<close>

theorem submit_without_file:
  "file_var s = None \<Longrightarrow>
     submit ev s = s\<lparr> error := MSG_NO_FILE \<rparr>
     \<and> error (submit ev s) \<noteq> []
     \<and> journal (submit ev s) = journal s
     \<and> uploading (submit ev s) = uploading s"
  by (simp add: submit_no_file MSG_NO_FILE_nonempty)

theorem submit_without_file_witness:
  "file_var (initial True) = None
   \<and> submit (responding 200 (JsonResolved crack_body)) (initial True)
       = (initial True)\<lparr> error := MSG_NO_FILE \<rparr>
   \<and> journal (submit (responding 200 (JsonResolved crack_body)) (initial True)) = []
   \<and> uploading (submit (responding 200 (JsonResolved crack_body)) (initial True)) = False"
proof -
  have h: "file_var (initial True) = None" by (simp add: initial_def)
  have j: "journal (initial True) = []" "uploading (initial True) = False"
    by (simp_all add: initial_def)
  show ?thesis
    using h j submit_without_file [OF h, of "responding 200 (JsonResolved crack_body)"] by auto
qed


subsection \<open>C6: a response whose status is not a success\<close>

text \<open>
  C6: for every response whose status is outside 200 to 299, \<open>submit\<close> sets the error
  message to \<^verbatim>\<open>HTTP\<close> followed by the status, which is not empty and contains the
  status; between the two writes of the flag the only effect is the request: the body is
  not read and there is no navigation.
\<close>

theorem submit_http_failure:
  assumes "file_var s = Some f" and "fetch_result ev = Resolved res" and "\<not> ok res"
  shows "error (submit ev s) = ''HTTP '' @ String_nat (status res)
     \<and> error (submit ev s) \<noteq> []
     \<and> sublist (String_nat (status res)) (error (submit ev s))
     \<and> journal (submit ev s)
         = journal s @ [Uploading True,
             Fetch (PUBLIC_API_BASE ev @ ''/predict'') ''POST'' [(''file'', f)],
             Uploading False]"
proof -
  have "sublist (String_nat (status res)) (''HTTP '' @ String_nat (status res))"
    by (metis sublist_appendI append_Nil2)
  then show ?thesis
    by (simp add: submit_not_ok [OF assms])
qed

theorem submit_http_failure_witness:
  "file_var picked = Some sample_png
   \<and> fetch_result (responding 500 (JsonResolved crack_body))
       = Resolved \<lparr> status = 500, json_result = JsonResolved crack_body \<rparr>
   \<and> \<not> ok \<lparr> status = 500, json_result = JsonResolved crack_body \<rparr>
   \<and> error (submit (responding 500 (JsonResolved crack_body)) picked) = ''HTTP 500''
   \<and> journal (submit (responding 500 (JsonResolved crack_body)) picked)
       = [CreateObjectURL ''blob:0'', Uploading True,
          Fetch ''http://localhost:8000/predict'' ''POST'' [(''file'', sample_png)],
          Uploading False]"
proof -
  have a: "file_var picked = Some sample_png" by (rule picked_file)
  have b: "fetch_result (responding 500 (JsonResolved crack_body))
       = Resolved \<lparr> status = 500, json_result = JsonResolved crack_body \<rparr>" by simp
  have c: "\<not> ok \<lparr> status = 500, json_result = JsonResolved crack_body \<rparr>" by (rule not_ok_500)
  have j: "journal picked = [CreateObjectURL ''blob:0'']" by (simp add: picked_state)
  show ?thesis
    using a b c submit_http_failure [OF a b c] by (simp add: String_nat_500 j)
qed

subsection \<open>C7: the round trip of a success response\<close>

text \<open>
  C7: given a success response with the body \<^verbatim>\<open>{label: "crack", prob: 0.87,
  request_id: "abc123"}\<close>, \<open>submit\<close> navigates exactly once, to
  \<^verbatim>\<open>/result?label=crack&prob=0.87&id=abc123\<close>.
\<close>

theorem submit_round_trip:
  assumes "file_var s = Some f" and "fetch_result ev = Resolved res" and "ok res"
    and "json_result res = JsonResolved (JObj [(''label'', JStr ''crack''),
           (''prob'', JNum ''0.87''), (''request_id'', JStr ''abc123'')])"
  shows "journal (submit ev s)
         = journal s @ [Uploading True,
             Fetch (PUBLIC_API_BASE ev @ ''/predict'') ''POST'' [(''file'', f)],
             ReadJson, Goto ''/result?label=crack&prob=0.87&id=abc123'', Uploading False]"
proof -
  have q: "build_query ev (JObj [(''label'', JStr ''crack''),
           (''prob'', JNum ''0.87''), (''request_id'', JStr ''abc123'')])
           = Inr [(''label'', ''crack''), (''prob'', ''0.87''), (''id'', ''abc123'')]"
    using crack_query [of ev] by (simp add: crack_body_def)
  show ?thesis
    by (subst submit_query [OF assms q])
       (simp add: crack_query_text del: URLSearchParams_toString.simps)
qed

theorem submit_round_trip_witness:
  "file_var picked = Some sample_png
   \<and> fetch_result (responding 200 (JsonResolved crack_body))
       = Resolved \<lparr> status = 200, json_result = JsonResolved crack_body \<rparr>
   \<and> ok \<lparr> status = 200, json_result = JsonResolved crack_body \<rparr>
   \<and> journal (submit (responding 200 (JsonResolved crack_body)) picked)
       = [CreateObjectURL ''blob:0'', Uploading True,
          Fetch ''http://localhost:8000/predict'' ''POST'' [(''file'', sample_png)],
          ReadJson, Goto ''/result?label=crack&prob=0.87&id=abc123'', Uploading False]"
proof -
  have a: "file_var picked = Some sample_png" by (rule picked_file)
  have b: "fetch_result (responding 200 (JsonResolved crack_body))
       = Resolved \<lparr> status = 200, json_result = JsonResolved crack_body \<rparr>" by simp
  have c: "ok \<lparr> status = 200, json_result = JsonResolved crack_body \<rparr>" by (rule ok_200)
  have d: "json_result \<lparr> status = 200, json_result = JsonResolved crack_body \<rparr>
      = JsonResolved (JObj [(''label'', JStr ''crack''),
           (''prob'', JNum ''0.87''), (''request_id'', JStr ''abc123'')])"
    by (simp add: crack_body_def)
  have j: "journal picked = [CreateObjectURL ''blob:0'']" by (simp add: picked_state)
  show ?thesis
    using a b c submit_round_trip [OF a b c d] by (simp add: j)
qed


subsection \<open>C8: a success response with an unexpected body\<close>

text \<open>
  C8 as stated says that navigation is never blocked on a response with status 200. A
  body that is the JSON value \<^verbatim>\<open>null\<close> makes \<^verbatim>\<open>data.label\<close> throw, and a body
  that is not JSON makes \<^verbatim>\<open>res.json()\<close> reject: in both cases the \<^verbatim>\<open>catch\<close>
  clause sets the error message and there is no navigation.
\<close>

theorem malformed_success_counterexample:
  "ok \<lparr> status = 200, json_result = JsonResolved JNull \<rparr>
   \<and> journal (submit (responding 200 (JsonResolved JNull)) picked)
       = [CreateObjectURL ''blob:0'', Uploading True,
          Fetch ''http://localhost:8000/predict'' ''POST'' [(''file'', sample_png)],
          ReadJson, Uploading False]
   \<and> error (submit (responding 200 (JsonResolved JNull)) picked)
       = engine_text (ReadOfNull ''label'')
   \<and> engine_text (ReadOfNull ''label'') \<noteq> []
   \<and> journal (submit (responding 200 (JsonRejected (Exception (Some ''Unexpected end of JSON input'')))) picked)
       = [CreateObjectURL ''blob:0'', Uploading True,
          Fetch ''http://localhost:8000/predict'' ''POST'' [(''file'', sample_png)],
          ReadJson, Uploading False]
   \<and> error (submit (responding 200 (JsonRejected (Exception (Some ''Unexpected end of JSON input'')))) picked)
       = ''Unexpected end of JSON input''"
proof -
  have j: "journal picked = [CreateObjectURL ''blob:0'']" by (simp add: picked_state)
  have n: "submit (responding 200 (JsonResolved JNull)) picked
      = picked\<lparr> error := catch_message (TypeError (responding 200 (JsonResolved JNull)) (ReadOfNull ''label'')),
           uploading := False,
           journal := journal picked @ [Uploading True,
             Fetch (PUBLIC_API_BASE (responding 200 (JsonResolved JNull)) @ ''/predict'') ''POST''
               [(''file'', sample_png)],
             ReadJson, Uploading False] \<rparr>"
    by (rule submit_no_query [OF picked_file _ ok_200 _ build_query_null]) simp_all
  have r: "submit (responding 200 (JsonRejected (Exception (Some ''Unexpected end of JSON input'')))) picked
      = picked\<lparr> error := catch_message (Exception (Some ''Unexpected end of JSON input'')),
           uploading := False,
           journal := journal picked @ [Uploading True,
             Fetch (PUBLIC_API_BASE (responding 200 (JsonRejected (Exception (Some ''Unexpected end of JSON input'')))) @ ''/predict'') ''POST''
               [(''file'', sample_png)],
             ReadJson, Uploading False] \<rparr>"
    by (rule submit_json_rejected [OF picked_file _ ok_200]) simp_all
  show ?thesis
    by (simp add: n r j ok_200 TypeError_def) (simp add: engine_text_def)
qed


text \<open>
  C8, amended: for every success response whose body parses to a JSON value other than
  \<^verbatim>\<open>null\<close>, and in which each of \<^verbatim>\<open>label\<close>, \<^verbatim>\<open>prob\<close>, \<^verbatim>\<open>request_id\<close> is
  missing, \<^verbatim>\<open>null\<close> or a value that \<^verbatim>\<open>String\<close> can convert, \<open>submit\<close> navigates
  exactly once to \<^verbatim>\<open>/result?\<close> with the three parameters \<^verbatim>\<open>label\<close>, \<^verbatim>\<open>prob\<close>,
  \<^verbatim>\<open>id\<close>: the empty string for a field that is missing or \<^verbatim>\<open>null\<close>, the text of
  the value otherwise. For every success response whose body is not JSON
  (\<^verbatim>\<open>res.json()\<close> rejects) or is the JSON value \<^verbatim>\<open>null\<close>, \<open>submit\<close> does not
  navigate, and the error message becomes the message of what was thrown: for a rejected
  \<^verbatim>\<open>res.json()\<close> the message of the rejection, or the text "the upload did not
  succeed" when it has none (so the message is empty only when the rejection's own
  message is the empty string); for a \<^verbatim>\<open>null\<close> body the engine's TypeError message.
\<close>

theorem submit_defaults:
  assumes "file_var s = Some f" and "fetch_result ev = Resolved res" and "ok res"
  shows
    "(\<forall>data l p r.
        json_result res = JsonResolved data \<and> data \<noteq> JNull
        \<and> param_text data ''label'' = Some l
        \<and> param_text data ''prob'' = Some p
        \<and> param_text data ''request_id'' = Some r \<longrightarrow>
          journal (submit ev s)
            = journal s @ [Uploading True,
                Fetch (PUBLIC_API_BASE ev @ ''/predict'') ''POST'' [(''file'', f)],
                ReadJson,
                Goto (''/result?'' @ URLSearchParams_toString [(''label'', l), (''prob'', p), (''id'', r)]),
                Uploading False]
          \<and> (own_field data ''label'' = None \<or> own_field data ''label'' = Some JNull \<longrightarrow> l = [])
          \<and> (own_field data ''prob'' = None \<or> own_field data ''prob'' = Some JNull \<longrightarrow> p = [])
          \<and> (own_field data ''request_id'' = None \<or> own_field data ''request_id'' = Some JNull
                \<longrightarrow> r = []))
     \<and> (\<forall>e. json_result res = JsonRejected e \<longrightarrow>
          journal (submit ev s)
            = journal s @ [Uploading True,
                Fetch (PUBLIC_API_BASE ev @ ''/predict'') ''POST'' [(''file'', f)],
                ReadJson, Uploading False]
          \<and> error (submit ev s) = catch_message e
          \<and> (error (submit ev s) = [] \<longleftrightarrow> e = Exception (Some [])))
     \<and> (json_result res = JsonResolved JNull \<longrightarrow>
          journal (submit ev s)
            = journal s @ [Uploading True,
                Fetch (PUBLIC_API_BASE ev @ ''/predict'') ''POST'' [(''file'', f)],
                ReadJson, Uploading False]
          \<and> error (submit ev s) = typeErrorText ev (ReadOfNull ''label''))"
proof (intro conjI allI impI)
  fix data l p r
  assume h: "json_result res = JsonResolved data \<and> data \<noteq> JNull
        \<and> param_text data ''label'' = Some l
        \<and> param_text data ''prob'' = Some p
        \<and> param_text data ''request_id'' = Some r"
  then have d: "json_result res = JsonResolved data" and n: "data \<noteq> JNull"
    and l: "param_text data ''label'' = Some l" and p: "param_text data ''prob'' = Some p"
    and r: "param_text data ''request_id'' = Some r"
    by simp_all
  have q: "build_query ev data = Inr [(''label'', l), (''prob'', p), (''id'', r)]"
    using n l p r by (rule build_query_params)
  show "journal (submit ev s)
            = journal s @ [Uploading True,
                Fetch (PUBLIC_API_BASE ev @ ''/predict'') ''POST'' [(''file'', f)],
                ReadJson,
                Goto (''/result?'' @ URLSearchParams_toString [(''label'', l), (''prob'', p), (''id'', r)]),
                Uploading False]"
    by (subst submit_query [OF assms d q]) simp
  show "l = []" if "own_field data ''label'' = None \<or> own_field data ''label'' = Some JNull"
    using that l param_text_default [of data "''label''"] by simp
  show "p = []" if "own_field data ''prob'' = None \<or> own_field data ''prob'' = Some JNull"
    using that p param_text_default [of data "''prob''"] by simp
  show "r = []"
    if "own_field data ''request_id'' = None \<or> own_field data ''request_id'' = Some JNull"
    using that r param_text_default [of data "''request_id''"] by simp
next
  fix e
  assume j: "json_result res = JsonRejected e"
  show "journal (submit ev s)
            = journal s @ [Uploading True,
                Fetch (PUBLIC_API_BASE ev @ ''/predict'') ''POST'' [(''file'', f)],
                ReadJson, Uploading False]"
    by (subst submit_json_rejected [OF assms j]) simp
  show m: "error (submit ev s) = catch_message e"
    by (subst submit_json_rejected [OF assms j]) simp
  show "(error (submit ev s) = []) = (e = Exception (Some []))"
    by (simp add: m catch_message_empty)
next
  assume j: "json_result res = JsonResolved JNull"
  show "journal (submit ev s)
            = journal s @ [Uploading True,
                Fetch (PUBLIC_API_BASE ev @ ''/predict'') ''POST'' [(''file'', f)],
                ReadJson, Uploading False]"
    by (subst submit_no_query [OF assms j build_query_null]) simp
  show "error (submit ev s) = typeErrorText ev (ReadOfNull ''label'')"
    by (subst submit_no_query [OF assms j build_query_null]) (simp add: TypeError_def)
qed

theorem submit_defaults_witness:
  "file_var picked = Some sample_png
   \<and> ok \<lparr> status = 200, json_result = JsonResolved sparse_body \<rparr>
   \<and> sparse_body \<noteq> JNull
   \<and> param_text sparse_body ''label'' = Some ''7''
   \<and> param_text sparse_body ''prob'' = Some []
   \<and> param_text sparse_body ''request_id'' = Some []
   \<and> journal (submit (responding 200 (JsonResolved sparse_body)) picked)
       = [CreateObjectURL ''blob:0'', Uploading True,
          Fetch ''http://localhost:8000/predict'' ''POST'' [(''file'', sample_png)],
          ReadJson, Goto ''/result?label=7&prob=&id='', Uploading False]
   \<and> journal (submit (responding 200 (JsonRejected (Exception None))) picked)
       = [CreateObjectURL ''blob:0'', Uploading True,
          Fetch ''http://localhost:8000/predict'' ''POST'' [(''file'', sample_png)],
          ReadJson, Uploading False]
   \<and> error (submit (responding 200 (JsonRejected (Exception None))) picked) = MSG_UPLOAD_FAILED
   \<and> error (submit (responding 200 (JsonRejected (Exception (Some [])))) picked) = []
   \<and> journal (submit (responding 200 (JsonResolved JNull)) picked)
       = [CreateObjectURL ''blob:0'', Uploading True,
          Fetch ''http://localhost:8000/predict'' ''POST'' [(''file'', sample_png)],
          ReadJson, Uploading False]
   \<and> error (submit (responding 200 (JsonResolved JNull)) picked) = engine_text (ReadOfNull ''label'')"
proof -
  have a: "file_var picked = Some sample_png" by (rule picked_file)
  have b: "fetch_result (responding 200 body) = Resolved \<lparr> status = 200, json_result = body \<rparr>"
    for body by simp
  have c: "ok \<lparr> status = 200, json_result = body \<rparr>" for body by (rule ok_200)
  have e: "sparse_body \<noteq> JNull" by (simp add: sparse_body_def)
  have l: "param_text sparse_body ''label'' = Some ''7''"
    by (simp add: sparse_body_def param_text_def)
  have p: "param_text sparse_body ''prob'' = Some []"
    by (simp add: sparse_body_def param_text_def)
  have r: "param_text sparse_body ''request_id'' = Some []"
    by (simp add: sparse_body_def param_text_def)
  have j: "journal picked = [CreateObjectURL ''blob:0'']" by (simp add: picked_state)
  note t1 = submit_defaults [OF a b c, of "JsonResolved sparse_body"]
  note t2 = submit_defaults [OF a b c, of "JsonRejected (Exception None)"]
  note t3 = submit_defaults [OF a b c, of "JsonRejected (Exception (Some []))"]
  note t4 = submit_defaults [OF a b c, of "JsonResolved JNull"]
  have g1: "journal (submit (responding 200 (JsonResolved sparse_body)) picked)
       = [CreateObjectURL ''blob:0'', Uploading True,
          Fetch ''http://localhost:8000/predict'' ''POST'' [(''file'', sample_png)],
          ReadJson, Goto ''/result?label=7&prob=&id='', Uploading False]"
    using t1 e l p r by (simp add: j sparse_query_text del: URLSearchParams_toString.simps)
  have g2: "journal (submit (responding 200 (JsonRejected (Exception None))) picked)
       = [CreateObjectURL ''blob:0'', Uploading True,
          Fetch ''http://localhost:8000/predict'' ''POST'' [(''file'', sample_png)],
          ReadJson, Uploading False]"
    and g3: "error (submit (responding 200 (JsonRejected (Exception None))) picked) = MSG_UPLOAD_FAILED"
    using t2 by (simp_all add: j)
  have g4: "error (submit (responding 200 (JsonRejected (Exception (Some [])))) picked) = []"
    using t3 by simp
  have g5: "journal (submit (responding 200 (JsonResolved JNull)) picked)
       = [CreateObjectURL ''blob:0'', Uploading True,
          Fetch ''http://localhost:8000/predict'' ''POST'' [(''file'', sample_png)],
          ReadJson, Uploading False]"
    and g6: "error (submit (responding 200 (JsonResolved JNull)) picked) = engine_text (ReadOfNull ''label'')"
    using t4 by (simp_all add: j)
  show ?thesis
    using a c e l p r g1 g2 g3 g4 g5 g6 by simp
qed

subsection \<open>C9: what the result view reads back\<close>

text \<open>
  C9 fails on the code. For a success response whose body has no \<^verbatim>\<open>prob\<close>,
  \<open>submit\<close> navigates to \<^verbatim>\<open>/result?label=crack&prob=&id=abc123\<close>: the parameter
  \<^verbatim>\<open>prob\<close> is present and empty, so the default \<^verbatim>\<open>'0'\<close> of \<open>load\<close> is not
  taken and \<^verbatim>\<open>parseFloat('')\<close> is \<^verbatim>\<open>NaN\<close>, not 0. Only an address without the
  parameter makes \<open>load\<close> return 0.
\<close>

theorem missing_prob_decodes_to_NaN:
  "journal (submit (responding 200 (JsonResolved no_prob_body)) picked)
     = [CreateObjectURL ''blob:0'', Uploading True,
        Fetch ''http://localhost:8000/predict'' ''POST'' [(''file'', sample_png)],
        ReadJson, Goto ''/result?label=crack&prob=&id=abc123'', Uploading False]
   \<and> searchParams_of ''/result?label=crack&prob=&id=abc123''
       = [(''label'', ''crack''), (''prob'', []), (''id'', ''abc123'')]
   \<and> load (searchParams_of ''/result?label=crack&prob=&id=abc123'')
       = \<lparr> label = ''crack'', prob = NaN \<rparr>
   \<and> load (searchParams_of ''/result?label=crack&id=abc123'')
       = \<lparr> label = ''crack'', prob = NumberOf ''0'' \<rparr>"
proof (intro conjI)
  have j: "journal picked = [CreateObjectURL ''blob:0'']" by (simp add: picked_state)
  have "submit (responding 200 (JsonResolved no_prob_body)) picked
      = picked\<lparr> error := (case goto_result (responding 200 (JsonResolved no_prob_body)) of
                          Some e \<Rightarrow> catch_message e | None \<Rightarrow> []),
           uploading := False,
           journal := journal picked @ [Uploading True,
             Fetch (PUBLIC_API_BASE (responding 200 (JsonResolved no_prob_body)) @ ''/predict'') ''POST''
               [(''file'', sample_png)],
             ReadJson,
             Goto (''/result?'' @ URLSearchParams_toString
                     [(''label'', ''crack''), (''prob'', []), (''id'', ''abc123'')]),
             Uploading False] \<rparr>"
    by (rule submit_query [OF picked_file _ ok_200 _ no_prob_query]) simp_all
  then show "journal (submit (responding 200 (JsonResolved no_prob_body)) picked)
     = [CreateObjectURL ''blob:0'', Uploading True,
        Fetch ''http://localhost:8000/predict'' ''POST'' [(''file'', sample_png)],
        ReadJson, Goto ''/result?label=crack&prob=&id=abc123'', Uploading False]"
    by (simp add: j no_prob_query_text del: URLSearchParams_toString.simps)
  show "searchParams_of ''/result?label=crack&prob=&id=abc123''
       = [(''label'', ''crack''), (''prob'', []), (''id'', ''abc123'')]"
    by code_simp
  show "load (searchParams_of ''/result?label=crack&prob=&id=abc123'')
       = \<lparr> label = ''crack'', prob = NaN \<rparr>"
    by code_simp
  show "load (searchParams_of ''/result?label=crack&id=abc123'')
       = \<lparr> label = ''crack'', prob = NumberOf ''0'' \<rparr>"
    by code_simp
qed


subsection \<open>C10: what submit leaves alone\<close>

text \<open>
  C10 as stated says that the candidate file and the preview handle are, when
  \<^verbatim>\<open>submit\<close> returns, what they were at entry. The call is suspended while the request
  is under way, and the drop zone is not disabled then: after the PNG has been picked and
  submitted, a JPEG dropped before the answer (a status 500) arrives is accepted, so that
  at return the file is the JPEG and the preview is a new handle.
\<close>

theorem submit_overtaken_counterexample:
  "file_var picked = Some sample_png
   \<and> previewUrl picked = Some ''blob:0''
   \<and> file_var (submit_during (responding 500 (JsonResolved JNull)) [Drop (Some [second_jpeg])] [] picked)
       = Some second_jpeg
   \<and> previewUrl (submit_during (responding 500 (JsonResolved JNull)) [Drop (Some [second_jpeg])] [] picked)
       = Some ''blob:1''
   \<and> Some second_jpeg \<noteq> Some sample_png"
proof -
  have r: "ran_during (responding 500 (JsonResolved JNull)) picked [Drop (Some [second_jpeg])] []
      = [Drop (Some [second_jpeg])]"
    by (simp add: ran_during_def picked_file not_ok_500)
  have "same_preview
      (submit_during (responding 500 (JsonResolved JNull)) [Drop (Some [second_jpeg])] [] picked)
      (meanwhile [Drop (Some [second_jpeg])] picked)"
    using same_preview_submit_during
      [of "responding 500 (JsonResolved JNull)" "[Drop (Some [second_jpeg])]" "[]" picked]
    by (simp only: r)
  then have
    "file_var (submit_during (responding 500 (JsonResolved JNull)) [Drop (Some [second_jpeg])] [] picked)
       = Some second_jpeg"
    "previewUrl (submit_during (responding 500 (JsonResolved JNull)) [Drop (Some [second_jpeg])] [] picked)
       = Some ''blob:1''"
    using drop_on_picked by (simp_all add: same_preview_def)
  moreover have "second_jpeg \<noteq> sample_png"
    by (simp add: second_jpeg_def sample_png_def)
  ultimately show ?thesis
    by (simp add: picked_state)
qed

text \<open>
  C10, amended: \<open>submit\<close> itself never writes the candidate file or the preview handle,
  on any path. When a call returns, the two hold what the handlers that ran during its
  \<^verbatim>\<open>await\<close>s (drops and picks on the drop zone, which stays enabled) have made
  of the values at entry. When nothing is done during the \<^verbatim>\<open>await\<close>s, the call
  changes nothing but the error message, the \<^verbatim>\<open>uploading\<close> flag and the journal: the
  file and the preview handle are what they were at entry and the set of live object URLs
  is the same, so the file and its preview are there for another attempt.
\<close>

theorem submit_frame:
  "file_var (submit_during ev d1 d2 s) = file_var (meanwhile (ran_during ev s d1 d2) s)
   \<and> previewUrl (submit_during ev d1 d2 s) = previewUrl (meanwhile (ran_during ev s d1 d2) s)
   \<and> submit ev s = s\<lparr> error := error (submit ev s), uploading := uploading (submit ev s),
                      journal := journal (submit ev s) \<rparr>
   \<and> file_var (submit ev s) = file_var s
   \<and> previewUrl (submit ev s) = previewUrl s
   \<and> live_urls (journal (submit ev s)) = live_urls (journal s)"
proof -
  have g: "file_var (submit_during ev d1 d2 s) = file_var (meanwhile (ran_during ev s d1 d2) s)
     \<and> previewUrl (submit_during ev d1 d2 s) = previewUrl (meanwhile (ran_during ev s d1 d2) s)"
    using same_preview_submit_during [of ev d1 d2 s] by (simp add: same_preview_def)
  have q: "submit ev s = s\<lparr> error := error (submit ev s), uploading := uploading (submit ev s),
                      journal := journal (submit ev s) \<rparr>
   \<and> file_var (submit ev s) = file_var s
   \<and> previewUrl (submit ev s) = previewUrl s
   \<and> live_urls (journal (submit ev s)) = live_urls (journal s)"
  proof (cases "file_var s")
    case None
    show ?thesis by (simp add: submit_no_file [OF None])
  next
    case (Some f)
    obtain mid where m:
      "submit ev s =
         s\<lparr> error := error (submit ev s), uploading := False,
            journal := journal s @ Uploading True
               # Fetch (PUBLIC_API_BASE ev @ ''/predict'') ''POST'' [(''file'', f)] # mid
               @ [Uploading False] \<rparr>"
      "\<forall>e \<in> set mid. e = ReadJson \<or> (\<exists>u. e = Goto u)"
      using submit_with_file [OF Some, of ev] by blast
    let ?xs = "Uploading True # Fetch (PUBLIC_API_BASE ev @ ''/predict'') ''POST'' [(''file'', f)] # mid
               @ [Uploading False]"
    have n: "\<forall>e \<in> set ?xs. url_neutral e"
      using m(2) by auto
    have j: "journal (submit ev s) = journal s @ ?xs"
      and f: "file_var (submit ev s) = file_var s"
      and p: "previewUrl (submit ev s) = previewUrl s"
      and u: "uploading (submit ev s) = False"
      by (subst m(1), simp)+
    have e: "submit ev s = s\<lparr> error := error (submit ev s), uploading := uploading (submit ev s),
                      journal := journal (submit ev s) \<rparr>"
      unfolding u j by (subst m(1)) simp
    show ?thesis
      using e f p live_urls_neutral [OF n, of "journal s"] by (simp only: j simp_thms)
  qed
  show ?thesis using g q by blast
qed

theorem submit_frame_witness:
  "file_var (submit (responding 500 (JsonResolved JNull)) picked) = Some sample_png
   \<and> previewUrl (submit (responding 500 (JsonResolved JNull)) picked) = Some ''blob:0''
   \<and> live_urls (journal (submit (responding 500 (JsonResolved JNull)) picked)) = [''blob:0'']
   \<and> file_var (submit_during (responding 500 (JsonResolved JNull)) [DragOver, DragLeave] [] picked)
       = Some sample_png"
proof -
  have r: "ran_during (responding 500 (JsonResolved JNull)) picked [DragOver, DragLeave] []
      = [DragOver, DragLeave]"
    by (simp add: ran_during_def picked_file not_ok_500)
  have m: "file_var (meanwhile [DragOver, DragLeave] picked) = Some sample_png"
    by (simp add: meanwhile_def onDragOver_def onDragLeave_def picked_file)
  show ?thesis
    using submit_frame [of "responding 500 (JsonResolved JNull)" "[]" "[]" picked]
      submit_frame [of "responding 500 (JsonResolved JNull)" "[DragOver, DragLeave]" "[]" picked]
    by (simp add: r m) (simp add: picked_state live_urls_def)
qed

end
